theory Spec2Isabelle
  imports Complex_Main "HOL-Library.Multiset"
begin

section \<open>Strings and identifiers\<close>

text \<open>
  JavaScript strings are modelled as \<open>string\<close>; on the ASCII range the functions below
  agree with \<^verbatim>\<open>String.prototype.trim\<close> and \<^verbatim>\<open>toLowerCase\<close>.
\<close>

definition isSpace :: "char \<Rightarrow> bool" where
  "isSpace c = (let n = (of_char c :: nat) in n = 32 \<or> (9 \<le> n \<and> n \<le> 13))"

definition trim :: "string \<Rightarrow> string" where
  "trim s = rev (dropWhile isSpace (rev (dropWhile isSpace s)))"

definition toLowerChar :: "char \<Rightarrow> char" where
  "toLowerChar c =
     (case map_of (zip ''ABCDEFGHIJKLMNOPQRSTUVWXYZ'' ''abcdefghijklmnopqrstuvwxyz'') c of
        None \<Rightarrow> c
      | Some l \<Rightarrow> l)"

definition toLowerCase :: "string \<Rightarrow> string" where
  "toLowerCase s = map toLowerChar s"

definition isDigit :: "char \<Rightarrow> bool" where
  "isDigit c = (let n = (of_char c :: nat) in 48 \<le> n \<and> n \<le> 57)"

definition isHexDigit :: "char \<Rightarrow> bool" where
  "isHexDigit c =
     (let n = (of_char c :: nat)
      in (48 \<le> n \<and> n \<le> 57) \<or> (65 \<le> n \<and> n \<le> 70) \<or> (97 \<le> n \<and> n \<le> 102))"

text \<open>
  An \<open>ObjectId\<close> is twelve bytes; the model keeps its canonical text, the 24 lowercase
  hexadecimal digits that \<^verbatim>\<open>toString()\<close> prints. A request carries identifiers as raw
  strings. \<open>isValid\<close> is \<^verbatim>\<open>mongoose.Types.ObjectId.isValid\<close> on strings: 24 hexadecimal
  digits of either case (the 12-character strings that some versions of the driver also
  accept are not modelled; the routes do not let them through). \<open>castObjectId\<close> is the
  cast the query layer applies to a string that \<open>isValid\<close> accepts, and is applied to no
  other. \<open>isMongoId\<close> is the validator of validator.js that the middleware uses, and
  accepts either case as well.
\<close>

datatype objectId = ObjectId string

fun toString :: "objectId \<Rightarrow> string" where
  "toString (ObjectId h) = h"

definition isValid :: "string \<Rightarrow> bool" where
  "isValid s = (length s = 24 \<and> list_all isHexDigit s)"

definition castObjectId :: "string \<Rightarrow> objectId" where
  "castObjectId s = ObjectId (toLowerCase s)"

definition isMongoId :: "string \<Rightarrow> bool" where
  "isMongoId s = (list_all isHexDigit s \<and> length s = 24)"

section \<open>Library functions taken as parameters\<close>

text \<open>
  The repository calls into bcryptjs, the regular-expression engine, \<^verbatim>\<open>Date\<close> parsing and
  validator.js. These are not part of the repository, so every operation takes them as
  the fields of one record: \<open>bcryptHash p salt\<close> is \<^verbatim>\<open>bcrypt.hash(p, salt)\<close>, \<open>emailMatch\<close>
  is the test of the pattern of \<^verbatim>\<open>clientSchema.email.match\<close>, \<open>parseDate\<close> is
  \<^verbatim>\<open>new Date(s)\<close> in milliseconds (\<open>None\<close> for an invalid date), and \<open>isEmail\<close>,
  \<open>normalizeEmail\<close>, \<open>isMobilePhone\<close>, \<open>isISO8601\<close> are validator.js;
  \<open>regexTest p v\<close> is the store's \<^verbatim>\<open>{ $regex: p, $options: "i" }\<close> on the value \<open>v\<close>.
\<close>

record lib =
  bcryptHash :: "string \<Rightarrow> string \<Rightarrow> string"
  emailMatch :: "string \<Rightarrow> bool"
  parseDate :: "string \<Rightarrow> int option"
  isEmail :: "string \<Rightarrow> bool"
  normalizeEmail :: "string \<Rightarrow> string"
  isMobilePhone :: "string \<Rightarrow> bool"
  isISO8601 :: "string \<Rightarrow> bool"
  regexTest :: "string \<Rightarrow> string \<Rightarrow> bool"

text \<open>
  What the environment supplies to one request: the clock reading, the identifier the
  driver gives a new document, and the salt \<^verbatim>\<open>bcrypt.genSalt(10)\<close> returns.
\<close>

record env =
  now :: int
  newId :: objectId
  salt :: string

section \<open>Documents and the store\<close>

record client =
  c_id :: objectId
  c_name :: string
  c_email :: string
  c_password :: string
  c_phone :: string
  c_age :: int
  c_createdAt :: int
  c_updatedAt :: int

record reservation =
  r_id :: objectId
  r_clientId :: objectId
  r_vehicle :: string
  r_service :: string
  r_status :: string
  r_scheduledDate :: int
  r_notes :: "string option"
  r_createdAt :: int
  r_updatedAt :: int

record store =
  clients :: "client list"
  reservations :: "reservation list"

text \<open>
  What a store call throws: a schema validation error, a cast error, a driver error with its numeric
  code (11000 is the duplicate-key error of a unique index), or the error a
  \<^verbatim>\<open>pre("save")\<close> hook passes to \<^verbatim>\<open>next\<close>. Only a driver error has a \<^verbatim>\<open>code\<close> property.
\<close>

datatype storeError = ValidationError | CastError | MongoServerError nat | HookError nat

fun code :: "storeError \<Rightarrow> nat option" where
  "code (MongoServerError n) = Some n"
| "code ValidationError = None"
| "code CastError = None"
| "code (HookError n) = None"

section \<open>Requests and responses\<close>

text \<open>
  A client body, for create and for update alike: every field may be absent.
\<close>

record clientBody =
  b_name :: "string option"
  b_email :: "string option"
  b_password :: "string option"
  b_phone :: "string option"
  b_age :: "int option"

text \<open>
  The literal messages of the handlers, one constructor each:
  \<^item> \<open>ID_de_cliente_no_valido\<close> "ID de cliente no v\'alido" (the spec's InvalidReference),
  \<^item> \<open>Cliente_no_encontrado\<close> "Cliente no encontrado" (ClientNotFound),
  \<^item> \<open>El_email_ya_esta_registrado\<close> "El email ya est\'a registrado" (DuplicateEmail),
  \<^item> \<open>Tiene_reservas_activas\<close> "No se puede eliminar el cliente porque tiene reservas
    activas" (HasActiveReservations),
  \<^item> \<open>La_fecha_debe_ser_en_el_futuro\<close> "La fecha programada debe ser en el futuro"
    (InvalidDate),
  \<^item> \<open>Errores_de_validacion\<close> "Errores de validaci\'on" (ValidationError, with the list of
    violated rules),
  and the success and server-error messages under their own words.
\<close>

datatype message =
    ID_de_cliente_no_valido
  | ID_de_reserva_no_valido
  | Cliente_no_encontrado
  | Reserva_no_encontrada
  | El_email_ya_esta_registrado
  | Tiene_reservas_activas
  | La_fecha_debe_ser_en_el_futuro
  | Errores_de_validacion
  | Cliente_creado_exitosamente
  | Cliente_actualizado_exitosamente
  | Cliente_eliminado_exitosamente
  | Reserva_creada_exitosamente
  | Reserva_actualizada_exitosamente
  | Error_al_obtener_los_clientes
  | Error_al_obtener_el_cliente
  | Error_al_crear_el_cliente
  | Error_al_actualizar_el_cliente
  | Error_al_eliminar_el_cliente
  | Error_al_crear_la_reserva
  | Error_al_actualizar_la_reserva
  | Error_al_obtener_las_reservas_del_cliente
  | Error_del_servidor

text \<open>One message of a validation chain (\<^verbatim>\<open>withMessage\<close>), by field.\<close>

datatype fieldError =
    ID_no_valido
  | Nombre_entre_2_y_50
  | Debe_ser_un_email_valido
  | Contrasena_al_menos_6
  | Debe_ser_un_telefono_valido
  | Edad_entre_18_y_120
  | El_ID_del_cliente_es_obligatorio
  | Campo_ID_de_cliente_no_valido
  | El_vehiculo_es_obligatorio
  | Vehiculo_entre_2_y_100
  | El_servicio_es_obligatorio
  | Servicio_no_valido
  | La_fecha_programada_es_obligatoria
  | Formato_de_fecha_no_valido
  | La_fecha_programada_debe_ser_en_el_futuro
  | Estado_no_valido
  | Notas_hasta_500

datatype jvalue = JStr string | JNum int | JId objectId | JDate int

type_synonym jobject = "(string \<times> jvalue) list"

text \<open>
  A reservation as a response carries it: \<^verbatim>\<open>populate("clientId", "name email phone")\<close>
  replaces the reference by the selected fields of the client, or by null.
\<close>

record populated =
  p_reservation :: reservation
  p_client :: "jobject option"

text \<open>
  The pagination summary. \<open>totalRecords\<close> stands for the key \<^verbatim>\<open>totalClients\<close> of the
  client list and \<^verbatim>\<open>totalReservations\<close> of the reservation lists.
\<close>

record pagination =
  currentPage :: int
  totalPages :: "int option"
  totalRecords :: int
  hasNext :: bool
  hasPrev :: bool

datatype payload =
    NoData
  | ClientData jobject
  | ClientList "jobject list"
  | ReservationData populated
  | ReservationList "populated list"

record response =
  status :: nat
  success :: bool
  message :: "message option"
  data :: payload
  errors :: "fieldError list"
  pages :: "pagination option"
  error :: "storeError option"

definition reply :: "nat \<Rightarrow> bool \<Rightarrow> message \<Rightarrow> response" where
  "reply st ok m =
     \<lparr>status = st, success = ok, message = Some m, data = NoData, errors = [],
      pages = None, error = None\<rparr>"

definition serverError :: "message \<Rightarrow> storeError \<Rightarrow> response" where
  "serverError m e = (reply 500 False m)\<lparr>error := Some e\<rparr>"

text \<open>The client objects a response carries, and whether an object has a key.\<close>

fun clientObjects :: "payload \<Rightarrow> jobject list" where
  "clientObjects (ClientData obj) = [obj]"
| "clientObjects (ClientList objs) = objs"
| "clientObjects NoData = []"
| "clientObjects (ReservationData r) = []"
| "clientObjects (ReservationList rs) = []"

definition hasKey :: "string \<Rightarrow> jobject \<Rightarrow> bool" where
  "hasKey k obj = (k \<in> set (map fst obj))"

definition noPasswordKey :: "response \<Rightarrow> bool" where
  "noPasswordKey r = list_all (\<lambda>obj. \<not> hasKey ''password'' obj) (clientObjects (data r))"

section \<open>The Client model\<close>

text \<open>The setters of the schema: \<^verbatim>\<open>trim\<close> on name, email and phone, \<^verbatim>\<open>lowercase\<close> on email.\<close>

definition castEmail :: "string \<Rightarrow> string" where
  "castEmail e = toLowerCase (trim e)"

text \<open>The pattern \<^verbatim>\<open>/^[\+]?[1-9][\d]{0,15}$/\<close> of \<^verbatim>\<open>clientSchema.phone.match\<close>.\<close>

definition phoneMatch :: "string \<Rightarrow> bool" where
  "phoneMatch s =
     (case (case s of [] \<Rightarrow> [] | c # r \<Rightarrow> if c = CHR ''+'' then r else s) of
        [] \<Rightarrow> False
      | d # ds \<Rightarrow> isDigit d \<and> d \<noteq> CHR ''0'' \<and> length ds \<le> 15 \<and> list_all isDigit ds)"

text \<open>
  The validators of each path of \<^verbatim>\<open>clientSchema\<close>, on the value after its setters.
  An absent or empty string fails \<^verbatim>\<open>required\<close>.
\<close>

definition validName :: "string \<Rightarrow> bool" where
  "validName n = (n \<noteq> [] \<and> 2 \<le> length n \<and> length n \<le> 50)"

definition validEmail :: "lib \<Rightarrow> string \<Rightarrow> bool" where
  "validEmail L e = (e \<noteq> [] \<and> emailMatch L e)"

definition validPassword :: "string \<Rightarrow> bool" where
  "validPassword p = (p \<noteq> [] \<and> 6 \<le> length p)"

definition validPhone :: "string \<Rightarrow> bool" where
  "validPhone p = (p \<noteq> [] \<and> phoneMatch p)"

definition validAge :: "int \<Rightarrow> bool" where
  "validAge a = (18 \<le> a \<and> a \<le> 120)"

text \<open>\<^verbatim>\<open>clientSchema.methods.toJSON\<close>: the plain object, with the password key deleted.\<close>

definition toObject :: "client \<Rightarrow> jobject" where
  "toObject c =
     [(''_id'', JId (c_id c)), (''name'', JStr (c_name c)), (''email'', JStr (c_email c)),
      (''password'', JStr (c_password c)), (''phone'', JStr (c_phone c)),
      (''age'', JNum (c_age c)), (''createdAt'', JDate (c_createdAt c)),
      (''updatedAt'', JDate (c_updatedAt c))]"

definition deleteKey :: "string \<Rightarrow> jobject \<Rightarrow> jobject" where
  "deleteKey k obj = filter (\<lambda>kv. fst kv \<noteq> k) obj"

definition toJSON :: "client \<Rightarrow> jobject" where
  "toJSON c = deleteKey ''password'' (toObject c)"

text \<open>
  \<^verbatim>\<open>.select("-password")\<close> loads the document without the path; serialising it runs
  \<open>toJSON\<close>'s deletion on an object that no longer has the key.
\<close>

definition selectMinusPassword :: "client \<Rightarrow> jobject" where
  "selectMinusPassword c = deleteKey ''password'' (deleteKey ''password'' (toObject c))"

text \<open>
  \<^verbatim>\<open>Client.findOne({ email })\<close> and \<^verbatim>\<open>Client.findOne({ email, _id: { $ne: id } })\<close>: the
  first client whose stored email is the queried one. The query value is cast by the
  setters of the path, as the stored value was (Mongoose runs setters on query values),
  and the identifier of \<^verbatim>\<open>$ne\<close> is cast to an \<open>ObjectId\<close>. An absent email matches no
  client (every stored client has one).
\<close>

definition Client_findOne :: "store \<Rightarrow> string option \<Rightarrow> client option" where
  "Client_findOne s e =
     (case e of None \<Rightarrow> None
      | Some v \<Rightarrow> find (\<lambda>c. c_email c = castEmail v) (clients s))"

definition Client_findOne_ne :: "store \<Rightarrow> string \<Rightarrow> string \<Rightarrow> client option" where
  "Client_findOne_ne s e ident =
     find (\<lambda>c. c_email c = castEmail e \<and> c_id c \<noteq> castObjectId ident) (clients s)"

definition Client_findById :: "store \<Rightarrow> objectId \<Rightarrow> client option" where
  "Client_findById s i = find (\<lambda>c. c_id c = i) (clients s)"

text \<open>
  \<^verbatim>\<open>new Client({...}).save()\<close>. The document is cast by the setters; validation runs
  first and throws a validation error; then the \<^verbatim>\<open>pre("save")\<close> hook of the schema
  replaces the password (modified, on a new document) by its hash under a fresh salt; then
  the insert runs against the unique indexes on \<^verbatim>\<open>_id\<close> and \<^verbatim>\<open>email\<close> and throws
  the driver's error 11000 on a collision. The timestamps are the clock reading.
\<close>

definition preSave_client :: "lib \<Rightarrow> env \<Rightarrow> bool \<Rightarrow> client \<Rightarrow> client" where
  "preSave_client L E modifiedPassword c =
     (if \<not> modifiedPassword then c
      else c\<lparr>c_password := bcryptHash L (c_password c) (salt E)\<rparr>)"

definition Client_save ::
  "lib \<Rightarrow> env \<Rightarrow> store \<Rightarrow> clientBody \<Rightarrow> storeError + (client \<times> store)" where
  "Client_save L E s b =
     (case (b_name b, b_email b, b_password b, b_phone b, b_age b) of
        (Some n, Some e, Some p, Some ph, Some a) \<Rightarrow>
          (let doc = \<lparr>c_id = newId E, c_name = trim n, c_email = castEmail e, c_password = p,
                      c_phone = trim ph, c_age = a, c_createdAt = now E, c_updatedAt = now E\<rparr>
           in if \<not> (validName (c_name doc) \<and> validEmail L (c_email doc) \<and> validPassword p
                     \<and> validPhone (c_phone doc) \<and> validAge a)
              then Inl ValidationError
              else (let saved = preSave_client L E True doc
                    in if list_ex (\<lambda>c. c_id c = c_id saved \<or> c_email c = c_email saved) (clients s)
                       then Inl (MongoServerError 11000)
                       else Inr (saved, s\<lparr>clients := clients s @ [saved]\<rparr>)))
      | _ \<Rightarrow> Inl ValidationError)"

text \<open>
  \<^verbatim>\<open>Client.findByIdAndUpdate(id, updateData, { new: true, runValidators: true })\<close>. The
  fields of the patch are cast by the setters and validated (only the fields present);
  the fields present are set on the document with that identifier, with a new
  \<^verbatim>\<open>updatedAt\<close>. No \<^verbatim>\<open>save\<close> hook runs on this call, so a password of the patch is stored
  as it is. The result is the updated document, or null when no document has the
  identifier.
\<close>

definition castPatch :: "clientBody \<Rightarrow> clientBody" where
  "castPatch b =
     b\<lparr>b_name := map_option trim (b_name b), b_email := map_option castEmail (b_email b),
       b_phone := map_option trim (b_phone b)\<rparr>"

definition validPatch :: "lib \<Rightarrow> clientBody \<Rightarrow> bool" where
  "validPatch L b =
     ((case b_name b of None \<Rightarrow> True | Some n \<Rightarrow> validName n)
      \<and> (case b_email b of None \<Rightarrow> True | Some e \<Rightarrow> validEmail L e)
      \<and> (case b_password b of None \<Rightarrow> True | Some p \<Rightarrow> validPassword p)
      \<and> (case b_phone b of None \<Rightarrow> True | Some p \<Rightarrow> validPhone p)
      \<and> (case b_age b of None \<Rightarrow> True | Some a \<Rightarrow> validAge a))"

definition applyPatch :: "env \<Rightarrow> clientBody \<Rightarrow> client \<Rightarrow> client" where
  "applyPatch E b c =
     c\<lparr>c_name := (case b_name b of None \<Rightarrow> c_name c | Some n \<Rightarrow> n),
       c_email := (case b_email b of None \<Rightarrow> c_email c | Some e \<Rightarrow> e),
       c_password := (case b_password b of None \<Rightarrow> c_password c | Some p \<Rightarrow> p),
       c_phone := (case b_phone b of None \<Rightarrow> c_phone c | Some p \<Rightarrow> p),
       c_age := (case b_age b of None \<Rightarrow> c_age c | Some a \<Rightarrow> a),
       c_updatedAt := now E\<rparr>"

fun updateFirst :: "('a \<Rightarrow> bool) \<Rightarrow> 'a \<Rightarrow> 'a list \<Rightarrow> 'a list" where
  "updateFirst P y [] = []"
| "updateFirst P y (x # xs) = (if P x then y # xs else x # updateFirst P y xs)"

definition Client_findByIdAndUpdate ::
  "lib \<Rightarrow> env \<Rightarrow> store \<Rightarrow> string \<Rightarrow> clientBody \<Rightarrow> storeError + (client option \<times> store)" where
  "Client_findByIdAndUpdate L E s ident b =
     (let p = castPatch b; i = castObjectId ident
      in if \<not> validPatch L p then Inl ValidationError
         else (case Client_findById s i of
                 None \<Rightarrow> Inr (None, s)
               | Some c \<Rightarrow>
                   (let c' = applyPatch E p c
                    in if b_email p \<noteq> None
                          \<and> list_ex (\<lambda>d. c_id d \<noteq> i \<and> c_email d = c_email c') (clients s)
                       then Inl (MongoServerError 11000)
                       else Inr (Some c',
                                 s\<lparr>clients := updateFirst (\<lambda>d. c_id d = i) c' (clients s)\<rparr>))))"

definition Client_findByIdAndDelete :: "store \<Rightarrow> string \<Rightarrow> client option \<times> store" where
  "Client_findByIdAndDelete s ident =
     (let i = castObjectId ident
      in (case Client_findById s i of
            None \<Rightarrow> (None, s)
          | Some c \<Rightarrow> (Some c, s\<lparr>clients := remove1 c (clients s)\<rparr>)))"

section \<open>The Reservation model, as the client handlers use it\<close>

text \<open>
  \<^verbatim>\<open>Reservation.countDocuments({ clientId: id, status: { $in: ["Pendiente", "En proceso"] } })\<close>.
\<close>

definition activeStatuses :: "string list" where
  "activeStatuses = [''Pendiente'', ''En proceso'']"

definition isActive :: "reservation \<Rightarrow> bool" where
  "isActive r = (r_status r \<in> set activeStatuses)"

definition countActive :: "store \<Rightarrow> string \<Rightarrow> nat" where
  "countActive s ident =
     length (filter (\<lambda>r. r_clientId r = castObjectId ident \<and> isActive r) (reservations s))"

section \<open>The client handlers (clientsController.js)\<close>

text \<open>
  Every handler takes the store and returns its response with the store it leaves.
  \<open>createClient_on\<close> and \<open>updateClient_on\<close> take two stores: \<open>seen\<close>, the store as the
  email pre-check reads it, and \<open>s\<close>, the store the write runs against; the handler awaits
  between the two calls, and other requests may have written meanwhile. \<open>createClient\<close>
  and \<open>updateClient\<close> are the handlers with no write in between.
\<close>

definition duplicateEmail :: response where
  "duplicateEmail = reply 400 False El_email_ya_esta_registrado"

definition createClient_on ::
  "lib \<Rightarrow> env \<Rightarrow> store \<Rightarrow> store \<Rightarrow> clientBody \<Rightarrow> response \<times> store" where
  "createClient_on L E seen s b =
     (case Client_findOne seen (b_email b) of
        Some existingClient \<Rightarrow> (duplicateEmail, s)
      | None \<Rightarrow>
          (case Client_save L E s b of
             Inl e \<Rightarrow>
               (if code e = Some 11000 then (duplicateEmail, s)
                else (serverError Error_al_crear_el_cliente e, s))
           | Inr (savedClient, s') \<Rightarrow>
               ((reply 201 True Cliente_creado_exitosamente)\<lparr>data := ClientData (toJSON savedClient)\<rparr>,
                s')))"

definition createClient :: "lib \<Rightarrow> env \<Rightarrow> store \<Rightarrow> clientBody \<Rightarrow> response \<times> store" where
  "createClient L E s b = createClient_on L E s s b"

text \<open>\<^verbatim>\<open>if (updateData.email)\<close>: the field is present and not the empty string.\<close>

definition truthy :: "string option \<Rightarrow> bool" where
  "truthy v = (case v of None \<Rightarrow> False | Some x \<Rightarrow> x \<noteq> [])"

definition updateClient_on ::
  "lib \<Rightarrow> env \<Rightarrow> store \<Rightarrow> store \<Rightarrow> string \<Rightarrow> clientBody \<Rightarrow> response \<times> store" where
  "updateClient_on L E seen s ident updateData =
     (if \<not> isValid ident then (reply 400 False ID_de_cliente_no_valido, s)
      else if truthy (b_email updateData)
              \<and> Client_findOne_ne seen (the (b_email updateData)) ident \<noteq> None
      then (duplicateEmail, s)
      else (case Client_findByIdAndUpdate L E s ident updateData of
              Inl e \<Rightarrow>
                (if code e = Some 11000 then (duplicateEmail, s)
                 else (serverError Error_al_actualizar_el_cliente e, s))
            | Inr (None, s') \<Rightarrow> (reply 404 False Cliente_no_encontrado, s')
            | Inr (Some updatedClient, s') \<Rightarrow>
                ((reply 200 True Cliente_actualizado_exitosamente)
                   \<lparr>data := ClientData (selectMinusPassword updatedClient)\<rparr>, s')))"

definition updateClient ::
  "lib \<Rightarrow> env \<Rightarrow> store \<Rightarrow> string \<Rightarrow> clientBody \<Rightarrow> response \<times> store" where
  "updateClient L E s ident updateData = updateClient_on L E s s ident updateData"

definition deleteClient :: "store \<Rightarrow> string \<Rightarrow> response \<times> store" where
  "deleteClient s ident =
     (if \<not> isValid ident then (reply 400 False ID_de_cliente_no_valido, s)
      else if countActive s ident > 0 then (reply 400 False Tiene_reservas_activas, s)
      else (case Client_findByIdAndDelete s ident of
              (None, s') \<Rightarrow> (reply 404 False Cliente_no_encontrado, s')
            | (Some deletedClient, s') \<Rightarrow> (reply 200 True Cliente_eliminado_exitosamente, s')))"

definition getClientById :: "store \<Rightarrow> string \<Rightarrow> response" where
  "getClientById s ident =
     (if \<not> isValid ident then reply 400 False ID_de_cliente_no_valido
      else (case Client_findById s (castObjectId ident) of
              None \<Rightarrow> reply 404 False Cliente_no_encontrado
            | Some c \<Rightarrow>
                \<lparr>status = 200, success = True, message = None,
                 data = ClientData (selectMinusPassword c), errors = [], pages = None,
                 error = None\<rparr>))"

section \<open>JavaScript numbers\<close>

text \<open>
  The handlers compute on the numbers the query strings convert to, which are IEEE 754
  doubles. \<open>toDouble n\<close> is the double nearest to the integer \<open>n\<close> (ties to the even
  significand): every integer of magnitude below \<open>2 ^ 53\<close> is its own double, a larger
  one keeps its 53 leading binary digits. \<open>toNumber n\<close> is \<open>None\<close> when that double is not
  finite (magnitude \<open>2 ^ 1024\<close> or more), and so is the result of an operation with an
  operand that is not finite. Subtraction and multiplication of integer-valued doubles
  round the exact result.
\<close>

fun bitLength :: "nat \<Rightarrow> nat" where
  "bitLength n = (if n = 0 then 0 else Suc (bitLength (n div 2)))"

declare bitLength.simps [simp del]

definition roundMagnitude :: "nat \<Rightarrow> nat" where
  "roundMagnitude a =
     (if a < 2 ^ 53 then a
      else (let e = bitLength a - 53; q = a div 2 ^ e; r = a mod 2 ^ e
            in (if 2 ^ e < 2 * r \<or> (2 * r = 2 ^ e \<and> odd q) then q + 1 else q) * 2 ^ e))"

definition toDouble :: "int \<Rightarrow> int" where
  "toDouble n =
     (if n < 0 then - int (roundMagnitude (nat (- n))) else int (roundMagnitude (nat n)))"

definition toNumber :: "int \<Rightarrow> int option" where
  "toNumber n = (let d = toDouble n in if \<bar>d\<bar> < 2 ^ 1024 then Some d else None)"

definition jsMinus :: "int option \<Rightarrow> int option \<Rightarrow> int option" where
  "jsMinus a b = (case (a, b) of (Some x, Some y) \<Rightarrow> toNumber (x - y) | _ \<Rightarrow> None)"

definition jsTimes :: "int option \<Rightarrow> int option \<Rightarrow> int option" where
  "jsTimes a b = (case (a, b) of (Some x, Some y) \<Rightarrow> toNumber (x * y) | _ \<Rightarrow> None)"

section \<open>Pagination\<close>

text \<open>
  The arithmetic the three list handlers share. \<open>q_page\<close> and \<open>q_limit\<close> are the integers
  the query strings denote (a query string that denotes no integer is outside the
  model); \<open>pageOf\<close> and \<open>limitOf\<close> are the numbers the handler computes with, 1 and 10 when
  the parameter is absent, and \<open>skipOf\<close> is \<^verbatim>\<open>(page - 1) * limit\<close>. \<open>queryNumbers\<close> gives
  the three when the skip is a finite number; otherwise the driver refuses the query.
  The store applies the sort, then \<^verbatim>\<open>skip\<close>, then \<^verbatim>\<open>limit\<close>, whatever the order of the
  calls; a limit of 0 is no limit, a negative one is its absolute value, and a negative
  skip is refused by the driver.

  \<^verbatim>\<open>Math.ceil(total / limit)\<close> is the ceiling of the quotient, which the double division
  gives exactly for the counts a store can hold (below \<open>2 ^ 53\<close>); with \<open>limit = 0\<close> the
  quotient is not a finite number and the field serialises as null. \<^verbatim>\<open>page * limit\<close>
  that is not finite is positive infinity where the summary is built, and is not below
  the count.
\<close>

record pageQuery =
  q_page :: "int option"
  q_limit :: "int option"

definition pageOf :: "'a pageQuery_scheme \<Rightarrow> int option" where
  "pageOf q = toNumber (case q_page q of None \<Rightarrow> 1 | Some p \<Rightarrow> p)"

definition limitOf :: "'a pageQuery_scheme \<Rightarrow> int option" where
  "limitOf q = toNumber (case q_limit q of None \<Rightarrow> 10 | Some l \<Rightarrow> l)"

definition skipOf :: "'a pageQuery_scheme \<Rightarrow> int option" where
  "skipOf q = jsTimes (jsMinus (pageOf q) (Some 1)) (limitOf q)"

definition queryNumbers :: "'a pageQuery_scheme \<Rightarrow> (int \<times> int \<times> int) option" where
  "queryNumbers q =
     (case (pageOf q, limitOf q, skipOf q) of
        (Some p, Some l, Some k) \<Rightarrow> Some (p, l, k)
      | _ \<Rightarrow> None)"

definition mathCeilDiv :: "int \<Rightarrow> int \<Rightarrow> int option" where
  "mathCeilDiv n k =
     (if k = 0 then None else Some \<lceil>(of_int n :: rat) / of_int k\<rceil>)"

definition paginationOf :: "int \<Rightarrow> int \<Rightarrow> nat \<Rightarrow> pagination" where
  "paginationOf p l n =
     \<lparr>currentPage = p, totalPages = mathCeilDiv (int n) l, totalRecords = int n,
      hasNext = (case toNumber (p * l) of None \<Rightarrow> False | Some x \<Rightarrow> x < int n),
      hasPrev = (p > 1)\<rparr>"

definition skipLimit :: "int \<Rightarrow> int \<Rightarrow> 'a list \<Rightarrow> storeError + 'a list" where
  "skipLimit k l xs =
     (if k < 0 then Inl (MongoServerError 2)
      else (let rest = drop (nat k) xs
            in Inr (if l = 0 then rest else take (nat \<bar>l\<bar>) rest)))"

record clientQuery = pageQuery +
  q_name :: "string option"
  q_email :: "string option"

definition clientFilter :: "lib \<Rightarrow> ('a clientQuery_scheme) \<Rightarrow> client \<Rightarrow> bool" where
  "clientFilter L q c =
     ((\<not> truthy (q_name q) \<or> regexTest L (the (q_name q)) (c_name c))
      \<and> (\<not> truthy (q_email q) \<or> regexTest L (the (q_email q)) (c_email c)))"

text \<open>
  \<^verbatim>\<open>Client.find(filters).sort({ createdAt: -1 })\<close>, newest first, before the skip and the
  limit, and \<^verbatim>\<open>Client.countDocuments(filters)\<close>. Clients created at the same instant stay
  in the order of the store.
\<close>

definition Client_find :: "lib \<Rightarrow> store \<Rightarrow> clientQuery \<Rightarrow> client list" where
  "Client_find L s q = sort_key (\<lambda>c. - c_createdAt c) (filter (clientFilter L q) (clients s))"

definition Client_countDocuments :: "lib \<Rightarrow> store \<Rightarrow> clientQuery \<Rightarrow> nat" where
  "Client_countDocuments L s q = length (filter (clientFilter L q) (clients s))"

definition getAllClients :: "lib \<Rightarrow> store \<Rightarrow> clientQuery \<Rightarrow> response" where
  "getAllClients L s q =
     (case queryNumbers q of
        None \<Rightarrow> serverError Error_al_obtener_los_clientes (MongoServerError 2)
      | Some (p, l, k) \<Rightarrow>
          (case skipLimit k l (Client_find L s q) of
             Inl e \<Rightarrow> serverError Error_al_obtener_los_clientes e
           | Inr found \<Rightarrow>
               \<lparr>status = 200, success = True, message = None,
                data = ClientList (map selectMinusPassword found), errors = [],
                pages = Some (paginationOf p l (Client_countDocuments L s q)),
                error = None\<rparr>))"

section \<open>The Reservation model\<close>

record reservationBody =
  rb_clientId :: "string option"
  rb_vehicle :: "string option"
  rb_service :: "string option"
  rb_status :: "string option"
  rb_scheduledDate :: "string option"
  rb_notes :: "string option"

text \<open>
  The enumerations of \<^verbatim>\<open>reservationSchema\<close>. The accented letters of the service names
  are written as their UTF-8 bytes.
\<close>

definition statusValues :: "string list" where
  "statusValues = [''Pendiente'', ''En proceso'', ''Completado'', ''Cancelado'']"

definition serviceValues :: "string list" where
  "serviceValues =
     [''Mantenimiento preventivo'',
      ''Cambio de aceite'',
      ''Revisi'' @ [CHR 0xC3, CHR 0xB3] @ ''n de frenos'',
      ''Alineaci'' @ [CHR 0xC3, CHR 0xB3] @ ''n y balanceo'',
      ''Revisi'' @ [CHR 0xC3, CHR 0xB3] @ ''n de motor'',
      ''Cambio de llantas'',
      ''Revisi'' @ [CHR 0xC3, CHR 0xB3] @ ''n el'' @ [CHR 0xC3, CHR 0xA9] @ ''ctrica'',
      ''Diagn'' @ [CHR 0xC3, CHR 0xB3] @ ''stico general'',
      ''Otros'']"

definition validVehicle :: "string \<Rightarrow> bool" where
  "validVehicle v = (v \<noteq> [] \<and> 2 \<le> length v \<and> length v \<le> 100)"

definition validService :: "string \<Rightarrow> bool" where
  "validService v = (v \<noteq> [] \<and> v \<in> set serviceValues)"

definition validStatus :: "string \<Rightarrow> bool" where
  "validStatus v = (v \<noteq> [] \<and> v \<in> set statusValues)"

text \<open>The validator of \<^verbatim>\<open>scheduledDate\<close>: \<^verbatim>\<open>date > new Date()\<close>.\<close>

definition validScheduledDate :: "env \<Rightarrow> int \<Rightarrow> bool" where
  "validScheduledDate E d = (d > now E)"

definition validNotes :: "string \<Rightarrow> bool" where
  "validNotes n = (length n \<le> 500)"

definition Reservation_findById :: "store \<Rightarrow> objectId \<Rightarrow> reservation option" where
  "Reservation_findById s i = find (\<lambda>r. r_id r = i) (reservations s)"

text \<open>
  \<^verbatim>\<open>new Reservation({...}).save()\<close> on the fields the caller passes. An absent status takes
  the schema's default, \<^verbatim>\<open>"Pendiente"\<close>. The paths are cast (an identifier or a date that does
  not cast is a validation failure) and validated; then the \<^verbatim>\<open>pre("save")\<close> hook of the
  schema looks the client up, on a new document, and fails with its own error (status
  code 404) when there is none; then the insert runs against the unique index on \<^verbatim>\<open>_id\<close>.
\<close>

definition preSave_reservation :: "store \<Rightarrow> bool \<Rightarrow> reservation \<Rightarrow> storeError option" where
  "preSave_reservation s isNewOrModified r =
     (if isNewOrModified \<and> Client_findById s (r_clientId r) = None then Some (HookError 404)
      else None)"

definition Reservation_save ::
  "lib \<Rightarrow> env \<Rightarrow> store \<Rightarrow> reservationBody \<Rightarrow> storeError + (reservation \<times> store)" where
  "Reservation_save L E s b =
     (case (rb_clientId b, rb_vehicle b, rb_service b, rb_scheduledDate b) of
        (Some cid, Some v, Some sv, Some d) \<Rightarrow>
          (case (isValid cid, parseDate L d) of
             (True, Some t) \<Rightarrow>
               (let doc = \<lparr>r_id = newId E, r_clientId = castObjectId cid, r_vehicle = trim v,
                           r_service = trim sv,
                           r_status = (case rb_status b of None \<Rightarrow> ''Pendiente'' | Some st \<Rightarrow> st),
                           r_scheduledDate = t, r_notes = map_option trim (rb_notes b),
                           r_createdAt = now E, r_updatedAt = now E\<rparr>
                in if \<not> (validVehicle (r_vehicle doc) \<and> validService (r_service doc)
                          \<and> validStatus (r_status doc) \<and> validScheduledDate E t
                          \<and> (case r_notes doc of None \<Rightarrow> True | Some n \<Rightarrow> validNotes n))
                   then Inl ValidationError
                   else (case preSave_reservation s True doc of
                           Some e \<Rightarrow> Inl e
                         | None \<Rightarrow>
                             if list_ex (\<lambda>r. r_id r = r_id doc) (reservations s)
                             then Inl (MongoServerError 11000)
                             else Inr (doc, s\<lparr>reservations := reservations s @ [doc]\<rparr>)))
           | _ \<Rightarrow> Inl ValidationError)
      | _ \<Rightarrow> Inl ValidationError)"

text \<open>
  \<^verbatim>\<open>Reservation.findByIdAndUpdate(id, updateData, { new: true, runValidators: true })\<close>:
  the fields of the patch are cast and validated, and set on the document with that
  identifier. No \<^verbatim>\<open>save\<close> hook runs on this call.
\<close>

definition castsReservationPatch :: "lib \<Rightarrow> reservationBody \<Rightarrow> bool" where
  "castsReservationPatch L b =
     ((case rb_clientId b of None \<Rightarrow> True | Some c \<Rightarrow> isValid c)
      \<and> (case rb_scheduledDate b of None \<Rightarrow> True | Some d \<Rightarrow> parseDate L d \<noteq> None))"

definition validReservationPatch :: "lib \<Rightarrow> env \<Rightarrow> reservationBody \<Rightarrow> bool" where
  "validReservationPatch L E b =
     ((case rb_vehicle b of None \<Rightarrow> True | Some v \<Rightarrow> validVehicle (trim v))
      \<and> (case rb_service b of None \<Rightarrow> True | Some v \<Rightarrow> validService (trim v))
      \<and> (case rb_status b of None \<Rightarrow> True | Some v \<Rightarrow> validStatus v)
      \<and> (case rb_scheduledDate b of None \<Rightarrow> True
          | Some d \<Rightarrow> (case parseDate L d of None \<Rightarrow> False | Some t \<Rightarrow> validScheduledDate E t))
      \<and> (case rb_notes b of None \<Rightarrow> True | Some n \<Rightarrow> validNotes (trim n)))"

definition applyReservationPatch :: "lib \<Rightarrow> env \<Rightarrow> reservationBody \<Rightarrow> reservation \<Rightarrow> reservation" where
  "applyReservationPatch L E b r =
     r\<lparr>r_clientId := (case rb_clientId b of None \<Rightarrow> r_clientId r | Some c \<Rightarrow> castObjectId c),
       r_vehicle := (case rb_vehicle b of None \<Rightarrow> r_vehicle r | Some v \<Rightarrow> trim v),
       r_service := (case rb_service b of None \<Rightarrow> r_service r | Some v \<Rightarrow> trim v),
       r_status := (case rb_status b of None \<Rightarrow> r_status r | Some v \<Rightarrow> v),
       r_scheduledDate :=
         (case rb_scheduledDate b of None \<Rightarrow> r_scheduledDate r
          | Some d \<Rightarrow> (case parseDate L d of None \<Rightarrow> r_scheduledDate r | Some t \<Rightarrow> t)),
       r_notes := (case rb_notes b of None \<Rightarrow> r_notes r | Some n \<Rightarrow> Some (trim n)),
       r_updatedAt := now E\<rparr>"

definition Reservation_findByIdAndUpdate ::
  "lib \<Rightarrow> env \<Rightarrow> store \<Rightarrow> string \<Rightarrow> reservationBody
     \<Rightarrow> storeError + (reservation option \<times> store)" where
  "Reservation_findByIdAndUpdate L E s ident b =
     (if \<not> castsReservationPatch L b then Inl CastError
      else if \<not> validReservationPatch L E b then Inl ValidationError
      else (case Reservation_findById s (castObjectId ident) of
              None \<Rightarrow> Inr (None, s)
            | Some r \<Rightarrow>
                (let r' = applyReservationPatch L E b r
                 in Inr (Some r',
                         s\<lparr>reservations :=
                             updateFirst (\<lambda>d. r_id d = castObjectId ident) r' (reservations s)\<rparr>))))"

text \<open>\<^verbatim>\<open>.populate("clientId", "name email phone")\<close>.\<close>

definition populate :: "store \<Rightarrow> reservation \<Rightarrow> populated" where
  "populate s r =
     \<lparr>p_reservation = r,
      p_client =
        map_option
          (\<lambda>c. [(''_id'', JId (c_id c)), (''name'', JStr (c_name c)),
                (''email'', JStr (c_email c)), (''phone'', JStr (c_phone c))])
          (Client_findById s (r_clientId r))\<rparr>"

section \<open>The reservation handlers (reservationsController.js)\<close>

text \<open>
  \<^verbatim>\<open>new Date(x) <= new Date()\<close>: false when \<open>x\<close> is absent or does not parse (the comparison
  with an invalid date is false).
\<close>

definition notFuture :: "lib \<Rightarrow> env \<Rightarrow> string option \<Rightarrow> bool" where
  "notFuture L E d =
     (case d of None \<Rightarrow> False
      | Some x \<Rightarrow> (case parseDate L x of None \<Rightarrow> False | Some t \<Rightarrow> t \<le> now E))"

text \<open>
  \<open>createReservation\<close> reads \<^verbatim>\<open>clientId, vehicle, service, scheduledDate, notes\<close> from the
  body and builds the document from these five; a status of the body is not read.
\<close>

definition createReservation ::
  "lib \<Rightarrow> env \<Rightarrow> store \<Rightarrow> reservationBody \<Rightarrow> response \<times> store" where
  "createReservation L E s b =
     (if \<not> (case rb_clientId b of None \<Rightarrow> False | Some c \<Rightarrow> isValid c)
      then (reply 400 False ID_de_cliente_no_valido, s)
      else (case Client_findById s (castObjectId (the (rb_clientId b))) of
              None \<Rightarrow> (reply 404 False Cliente_no_encontrado, s)
            | Some client \<Rightarrow>
                if notFuture L E (rb_scheduledDate b)
                then (reply 400 False La_fecha_debe_ser_en_el_futuro, s)
                else (case Reservation_save L E s (b\<lparr>rb_status := None\<rparr>) of
                        Inl e \<Rightarrow> (serverError Error_al_crear_la_reserva e, s)
                      | Inr (savedReservation, s') \<Rightarrow>
                          (case Reservation_findById s' (r_id savedReservation) of
                             None \<Rightarrow>
                               ((reply 201 True Reserva_creada_exitosamente), s')
                           | Some r \<Rightarrow>
                               ((reply 201 True Reserva_creada_exitosamente)
                                  \<lparr>data := ReservationData (populate s' r)\<rparr>, s')))))"

definition updateReservation ::
  "lib \<Rightarrow> env \<Rightarrow> store \<Rightarrow> string \<Rightarrow> reservationBody \<Rightarrow> response \<times> store" where
  "updateReservation L E s ident updateData =
     (if \<not> isValid ident then (reply 400 False ID_de_reserva_no_valido, s)
      else if truthy (rb_clientId updateData) \<and> \<not> isValid (the (rb_clientId updateData))
      then (reply 400 False ID_de_cliente_no_valido, s)
      else if truthy (rb_clientId updateData)
              \<and> Client_findById s (castObjectId (the (rb_clientId updateData))) = None
      then (reply 404 False Cliente_no_encontrado, s)
      else if truthy (rb_scheduledDate updateData) \<and> notFuture L E (rb_scheduledDate updateData)
      then (reply 400 False La_fecha_debe_ser_en_el_futuro, s)
      else (case Reservation_findByIdAndUpdate L E s ident updateData of
              Inl e \<Rightarrow> (serverError Error_al_actualizar_la_reserva e, s)
            | Inr (None, s') \<Rightarrow> (reply 404 False Reserva_no_encontrada, s')
            | Inr (Some updatedReservation, s') \<Rightarrow>
                ((reply 200 True Reserva_actualizada_exitosamente)
                   \<lparr>data := ReservationData (populate s' updatedReservation)\<rparr>, s')))"

record reservationQuery = pageQuery +
  q_status :: "string option"

definition getReservationsByClient :: "store \<Rightarrow> string \<Rightarrow> reservationQuery \<Rightarrow> response" where
  "getReservationsByClient s clientId q =
     (if \<not> isValid clientId then reply 400 False ID_de_cliente_no_valido
      else (case Client_findById s (castObjectId clientId) of
              None \<Rightarrow> reply 404 False Cliente_no_encontrado
            | Some client \<Rightarrow>
                (let matching =
                       filter (\<lambda>r. r_clientId r = castObjectId clientId
                                   \<and> (if truthy (q_status q) then r_status r = the (q_status q) else True))
                         (reservations s)
                 in (case queryNumbers q of
                       None \<Rightarrow>
                         serverError Error_al_obtener_las_reservas_del_cliente (MongoServerError 2)
                     | Some (p, l, k) \<Rightarrow>
                         (case skipLimit k l (sort_key r_scheduledDate matching) of
                            Inl e \<Rightarrow> serverError Error_al_obtener_las_reservas_del_cliente e
                          | Inr found \<Rightarrow>
                              \<lparr>status = 200, success = True, message = None,
                               data = ReservationList (map (populate s) found), errors = [],
                               pages = Some (paginationOf p l (length matching)),
                               error = None\<rparr>)))))"

section \<open>The middlewares (validation.js) and the routes\<close>

text \<open>
  A middleware answers the request (\<open>Inl\<close>) or calls \<^verbatim>\<open>next()\<close> (\<open>Inr\<close>), with the body as
  its sanitizers left it. \<open>handleValidationErrors\<close> answers 400 with the collected
  messages when there is one.
\<close>

definition handleValidationErrors :: "fieldError list \<Rightarrow> response option" where
  "handleValidationErrors errs =
     (if errs \<noteq> [] then Some ((reply 400 False Errores_de_validacion)\<lparr>errors := errs\<rparr>)
      else None)"

text \<open>
  \<open>validateId\<close> checks \<^verbatim>\<open>param("id")\<close>: the route parameter named \<^verbatim>\<open>id\<close>, and the empty
  string when the route has no parameter of that name.
\<close>

type_synonym params = "(string \<times> string) list"

definition validateId :: "params \<Rightarrow> response option" where
  "validateId ps =
     handleValidationErrors
       (if isMongoId (case map_of ps ''id'' of None \<Rightarrow> [] | Some v \<Rightarrow> v) then []
        else [ID_no_valido])"

definition validateClientUpdate :: "lib \<Rightarrow> clientBody \<Rightarrow> response + clientBody" where
  "validateClientUpdate L b =
     (let nm = map_option trim (b_name b);
          em = map_option trim (b_email b);
          ph = map_option trim (b_phone b);
          errs =
            (case nm of None \<Rightarrow> []
             | Some n \<Rightarrow> if 2 \<le> length n \<and> length n \<le> 50 then [] else [Nombre_entre_2_y_50])
            @ (case em of None \<Rightarrow> []
               | Some e \<Rightarrow> if isEmail L e then [] else [Debe_ser_un_email_valido])
            @ (case b_password b of None \<Rightarrow> []
               | Some p \<Rightarrow> if 6 \<le> length p then [] else [Contrasena_al_menos_6])
            @ (case ph of None \<Rightarrow> []
               | Some p \<Rightarrow> if isMobilePhone L p then [] else [Debe_ser_un_telefono_valido])
            @ (case b_age b of None \<Rightarrow> []
               | Some a \<Rightarrow> if 18 \<le> a \<and> a \<le> 120 then [] else [Edad_entre_18_y_120])
      in (case handleValidationErrors errs of
            Some r \<Rightarrow> Inl r
          | None \<Rightarrow> Inr (b\<lparr>b_name := nm, b_email := map_option (normalizeEmail L) em,
                           b_phone := ph\<rparr>)))"

text \<open>
  \<open>checkEmailUnique\<close>: \<^verbatim>\<open>existingClient._id.toString() !== id\<close> compares the canonical
  text of the stored identifier with the route parameter as it was sent.
\<close>

definition checkEmailUnique :: "store \<Rightarrow> string \<Rightarrow> clientBody \<Rightarrow> response option" where
  "checkEmailUnique s ident b =
     (if truthy (b_email b)
      then (case Client_findOne s (b_email b) of
              None \<Rightarrow> None
            | Some existingClient \<Rightarrow>
                if toString (c_id existingClient) \<noteq> ident then Some duplicateEmail else None)
      else None)"

text \<open>
  \<^verbatim>\<open>router.put("/:id", validateId, validateClientUpdate, checkEmailUnique, updateClient)\<close>
  of routes/clients.js.
\<close>

definition put_client :: "lib \<Rightarrow> env \<Rightarrow> store \<Rightarrow> string \<Rightarrow> clientBody \<Rightarrow> response \<times> store" where
  "put_client L E s ident b =
     (case validateId [(''id'', ident)] of
        Some r \<Rightarrow> (r, s)
      | None \<Rightarrow>
          (case validateClientUpdate L b of
             Inl r \<Rightarrow> (r, s)
           | Inr b' \<Rightarrow>
               (case checkEmailUnique s ident b' of
                  Some r \<Rightarrow> (r, s)
                | None \<Rightarrow> updateClient L E s ident b')))"

text \<open>
  \<^verbatim>\<open>router.get("/client/:clientId", validateId, getReservationsByClient)\<close> of
  routes/reservations.js: the parameter of this route is named \<^verbatim>\<open>clientId\<close>.
\<close>

definition get_reservations_client :: "store \<Rightarrow> string \<Rightarrow> reservationQuery \<Rightarrow> response" where
  "get_reservations_client s clientId q =
     (case validateId [(''clientId'', clientId)] of
        Some r \<Rightarrow> r
      | None \<Rightarrow> getReservationsByClient s clientId q)"

text \<open>
  \<open>validateReservation\<close> and \<open>validateReservationUpdate\<close>. Every validator of a chain
  runs (there is no \<^verbatim>\<open>bail\<close>) and adds its message when it fails; a standard validator
  reads an absent field as the empty string, and \<^verbatim>\<open>optional()\<close> skips the chain of an
  absent field. The custom validator of \<^verbatim>\<open>scheduledDate\<close> is the test of the handlers,
  \<^verbatim>\<open>new Date(value) <= new Date()\<close>, at the clock reading of the request.
\<close>

definition textOf :: "string option \<Rightarrow> string" where
  "textOf v = (case v of None \<Rightarrow> [] | Some x \<Rightarrow> x)"

definition check :: "bool \<Rightarrow> fieldError \<Rightarrow> fieldError list" where
  "check ok e = (if ok then [] else [e])"

definition reservationErrors :: "lib \<Rightarrow> env \<Rightarrow> reservationBody \<Rightarrow> fieldError list" where
  "reservationErrors L E b =
     check (textOf (rb_clientId b) \<noteq> []) El_ID_del_cliente_es_obligatorio
     @ check (isMongoId (textOf (rb_clientId b))) Campo_ID_de_cliente_no_valido
     @ check (trim (textOf (rb_vehicle b)) \<noteq> []) El_vehiculo_es_obligatorio
     @ check (2 \<le> length (trim (textOf (rb_vehicle b)))
              \<and> length (trim (textOf (rb_vehicle b))) \<le> 100) Vehiculo_entre_2_y_100
     @ check (textOf (rb_service b) \<noteq> []) El_servicio_es_obligatorio
     @ check (textOf (rb_service b) \<in> set serviceValues) Servicio_no_valido
     @ check (textOf (rb_scheduledDate b) \<noteq> []) La_fecha_programada_es_obligatoria
     @ check (isISO8601 L (textOf (rb_scheduledDate b))) Formato_de_fecha_no_valido
     @ check (\<not> notFuture L E (rb_scheduledDate b)) La_fecha_programada_debe_ser_en_el_futuro
     @ (case rb_status b of None \<Rightarrow> []
        | Some st \<Rightarrow> check (st \<in> set statusValues) Estado_no_valido)
     @ (case rb_notes b of None \<Rightarrow> []
        | Some n \<Rightarrow> check (length (trim n) \<le> 500) Notas_hasta_500)"

definition validateReservation ::
  "lib \<Rightarrow> env \<Rightarrow> reservationBody \<Rightarrow> response + reservationBody" where
  "validateReservation L E b =
     (case handleValidationErrors (reservationErrors L E b) of
        Some r \<Rightarrow> Inl r
      | None \<Rightarrow> Inr (b\<lparr>rb_vehicle := Some (trim (textOf (rb_vehicle b))),
                         rb_notes := map_option trim (rb_notes b)\<rparr>))"

definition reservationUpdateErrors :: "lib \<Rightarrow> env \<Rightarrow> reservationBody \<Rightarrow> fieldError list" where
  "reservationUpdateErrors L E b =
     (case rb_clientId b of None \<Rightarrow> []
      | Some c \<Rightarrow> check (isMongoId c) Campo_ID_de_cliente_no_valido)
     @ (case rb_vehicle b of None \<Rightarrow> []
        | Some v \<Rightarrow> check (2 \<le> length (trim v) \<and> length (trim v) \<le> 100) Vehiculo_entre_2_y_100)
     @ (case rb_service b of None \<Rightarrow> []
        | Some v \<Rightarrow> check (v \<in> set serviceValues) Servicio_no_valido)
     @ (case rb_scheduledDate b of None \<Rightarrow> []
        | Some d \<Rightarrow>
            check (isISO8601 L d) Formato_de_fecha_no_valido
            @ check (\<not> notFuture L E (Some d)) La_fecha_programada_debe_ser_en_el_futuro)
     @ (case rb_status b of None \<Rightarrow> []
        | Some st \<Rightarrow> check (st \<in> set statusValues) Estado_no_valido)
     @ (case rb_notes b of None \<Rightarrow> []
        | Some n \<Rightarrow> check (length (trim n) \<le> 500) Notas_hasta_500)"

definition validateReservationUpdate ::
  "lib \<Rightarrow> env \<Rightarrow> reservationBody \<Rightarrow> response + reservationBody" where
  "validateReservationUpdate L E b =
     (case handleValidationErrors (reservationUpdateErrors L E b) of
        Some r \<Rightarrow> Inl r
      | None \<Rightarrow> Inr (b\<lparr>rb_vehicle := map_option trim (rb_vehicle b),
                         rb_notes := map_option trim (rb_notes b)\<rparr>))"

text \<open>
  \<^verbatim>\<open>router.post("/", validateReservation, createReservation)\<close> and
  \<^verbatim>\<open>router.put("/:id", validateId, validateReservationUpdate, updateReservation)\<close> of
  routes/reservations.js.
\<close>

definition post_reservation ::
  "lib \<Rightarrow> env \<Rightarrow> store \<Rightarrow> reservationBody \<Rightarrow> response \<times> store" where
  "post_reservation L E s b =
     (case validateReservation L E b of
        Inl r \<Rightarrow> (r, s)
      | Inr b' \<Rightarrow> createReservation L E s b')"

definition put_reservation ::
  "lib \<Rightarrow> env \<Rightarrow> store \<Rightarrow> string \<Rightarrow> reservationBody \<Rightarrow> response \<times> store" where
  "put_reservation L E s ident p =
     (case validateId [(''id'', ident)] of
        Some r \<Rightarrow> (r, s)
      | None \<Rightarrow>
          (case validateReservationUpdate L E p of
             Inl r \<Rightarrow> (r, s)
           | Inr p' \<Rightarrow> updateReservation L E s ident p'))"

text \<open>
  A response that fails with the spec's InvalidDate: status 400 with the future-date
  message, as the message of the response (the handlers) or among its validation
  messages (the validators of the routes).
\<close>

definition failsWithInvalidDate :: "response \<Rightarrow> bool" where
  "failsWithInvalidDate r =
     (status r = 400
      \<and> (message r = Some La_fecha_debe_ser_en_el_futuro
           \<or> La_fecha_programada_debe_ser_en_el_futuro \<in> set (errors r)))"

section \<open>A reference instance\<close>

text \<open>
  Stand-ins for the library functions and a few stores, used only to evaluate the
  handlers at concrete inputs. The client \<open>ana\<close> is the one of the spec's scenario, as
  \<open>createClient\<close> stores it in the environment \<open>exEnv\<close>.
\<close>

definition exLib :: lib where
  "exLib =
     \<lparr>bcryptHash = (\<lambda>p sl. sl @ rev p),
      emailMatch = (\<lambda>e. CHR ''@'' \<in> set e),
      parseDate =
        (\<lambda>d. if d = ''2030-01-01T00:00:00.000Z'' then Some 1893456000000
              else if d = ''2020-01-01T00:00:00.000Z'' then Some 1577836800000
              else None),
      isEmail = (\<lambda>e. CHR ''@'' \<in> set e),
      normalizeEmail = toLowerCase,
      isMobilePhone = phoneMatch,
      isISO8601 =
        (\<lambda>d. d = ''2030-01-01T00:00:00.000Z'' \<or> d = ''2020-01-01T00:00:00.000Z''),
      regexTest = (\<lambda>p v. list_ex (\<lambda>i. take (length p) (drop i (toLowerCase v)) = toLowerCase p)
                            [0..<Suc (length v)])\<rparr>"

definition exEnv :: env where
  "exEnv =
     \<lparr>now = 1700000000000, newId = ObjectId ''507f1f77bcf86cd799439011'',
      salt = ''$2a$10$N9qo8uLOickgx2ZMRZoMye''\<rparr>"

definition anaId :: string where
  "anaId = ''507f1f77bcf86cd799439011''"

definition upperAnaId :: string where
  "upperAnaId = ''507F1F77BCF86CD799439011''"

definition bobId :: string where
  "bobId = ''60f7b1b3b3f3b3f3b3f3b3f3''"

definition futureDate :: string where
  "futureDate = ''2030-01-01T00:00:00.000Z''"

definition pastDate :: string where
  "pastDate = ''2020-01-01T00:00:00.000Z''"

definition ana :: client where
  "ana =
     \<lparr>c_id = ObjectId ''507f1f77bcf86cd799439011'', c_name = ''Ana Ruiz'',
      c_email = ''ana@x.com'', c_password = ''$2a$10$N9qo8uLOickgx2ZMRZoMye654321'',
      c_phone = ''+573000000'', c_age = 25, c_createdAt = 1700000000000,
      c_updatedAt = 1700000000000\<rparr>"

definition anaBody :: clientBody where
  "anaBody =
     \<lparr>b_name = Some ''Ana Ruiz'', b_email = Some ''ana@x.com'', b_password = Some ''123456'',
      b_phone = Some ''+573000000'', b_age = Some 25\<rparr>"

definition emptyPatch :: clientBody where
  "emptyPatch =
     \<lparr>b_name = None, b_email = None, b_password = None, b_phone = None, b_age = None\<rparr>"

definition bob :: client where
  "bob =
     \<lparr>c_id = ObjectId ''60f7b1b3b3f3b3f3b3f3b3f3'', c_name = ''Bob Mora'',
      c_email = ''bob@x.com'', c_password = ''$2a$10$N9qo8uLOickgx2ZMRZoMyeterces'',
      c_phone = ''+573111111'', c_age = 40, c_createdAt = 1650000000000,
      c_updatedAt = 1650000000000\<rparr>"

definition emailOnly :: "string \<Rightarrow> clientBody" where
  "emailOnly e = emptyPatch\<lparr>b_email := Some e\<rparr>"

definition phoneOnly :: "string \<Rightarrow> clientBody" where
  "phoneOnly ph = emptyPatch\<lparr>b_phone := Some ph\<rparr>"

definition passwordOnly :: "string \<Rightarrow> clientBody" where
  "passwordOnly pw = emptyPatch\<lparr>b_password := Some pw\<rparr>"

definition emptyStore :: store where
  "emptyStore = \<lparr>clients = [], reservations = []\<rparr>"

definition anaStore :: store where
  "anaStore = \<lparr>clients = [ana], reservations = []\<rparr>"

definition pairStore :: store where
  "pairStore = \<lparr>clients = [ana, bob], reservations = []\<rparr>"

definition oilChange :: "string \<Rightarrow> reservation" where
  "oilChange st =
     \<lparr>r_id = ObjectId ''60f7b1b3b3f3b3f3b3f3b3f4'', r_clientId = ObjectId ''507f1f77bcf86cd799439011'',
      r_vehicle = ''Toyota Corolla 2020'', r_service = ''Cambio de aceite'', r_status = st,
      r_scheduledDate = 1893456000000, r_notes = None, r_createdAt = 1600000000000,
      r_updatedAt = 1600000000000\<rparr>"

definition bookedStore :: "string \<Rightarrow> store" where
  "bookedStore st = \<lparr>clients = [ana], reservations = [oilChange st]\<rparr>"

definition oilBody :: "string \<Rightarrow> string \<Rightarrow> reservationBody" where
  "oilBody cid d =
     \<lparr>rb_clientId = Some cid, rb_vehicle = Some ''Toyota Corolla 2020'',
      rb_service = Some ''Cambio de aceite'', rb_status = None, rb_scheduledDate = Some d,
      rb_notes = None\<rparr>"

definition created :: reservation where
  "created =
     \<lparr>r_id = ObjectId ''507f1f77bcf86cd799439011'', r_clientId = ObjectId ''507f1f77bcf86cd799439011'',
      r_vehicle = ''Toyota Corolla 2020'', r_service = ''Cambio de aceite'',
      r_status = ''Pendiente'', r_scheduledDate = 1893456000000, r_notes = None,
      r_createdAt = 1700000000000, r_updatedAt = 1700000000000\<rparr>"

definition emptyReservationPatch :: reservationBody where
  "emptyReservationPatch =
     \<lparr>rb_clientId = None, rb_vehicle = None, rb_service = None, rb_status = None,
      rb_scheduledDate = None, rb_notes = None\<rparr>"

definition pageOnly :: "int \<Rightarrow> int \<Rightarrow> clientQuery" where
  "pageOnly p l = \<lparr>q_page = Some p, q_limit = Some l, q_name = None, q_email = None\<rparr>"

definition hex2 :: "nat \<Rightarrow> string" where
  "hex2 i = [''0123456789abcdef'' ! (i div 16), ''0123456789abcdef'' ! (i mod 16)]"

definition numbered :: "nat \<Rightarrow> client" where
  "numbered i =
     \<lparr>c_id = ObjectId (replicate 22 CHR ''0'' @ hex2 i), c_name = ''Cliente '' @ hex2 i,
      c_email = hex2 i @ ''@x.com'', c_password = ''$2a$10$N9qo8uLOickgx2ZMRZoMye654321'',
      c_phone = ''+573000000'', c_age = 30, c_createdAt = 1600000000000 + int i,
      c_updatedAt = 1600000000000 + int i\<rparr>"

definition crowd :: store where
  "crowd = \<lparr>clients = map numbered [0..<25], reservations = []\<rparr>"

definition dateOnly :: "string \<Rightarrow> reservationBody" where
  "dateOnly d = emptyReservationPatch\<lparr>rb_scheduledDate := Some d\<rparr>"

definition oilId :: string where
  "oilId = ''60f7b1b3b3f3b3f3b3f3b3f4''"

definition hugePage :: clientQuery where
  "hugePage =
     \<lparr>q_page = Some 9007199254740993, q_limit = Some 10, q_name = None, q_email = None\<rparr>"

definition firstPage :: reservationQuery where
  "firstPage = \<lparr>q_page = None, q_limit = None, q_status = None\<rparr>"


section \<open>Evaluation of the reference instance\<close>

lemma isValid_anaId: "isValid anaId"
  by (simp add: anaId_def isValid_def isHexDigit_def)

lemma cast_anaId: "castObjectId anaId = ObjectId ''507f1f77bcf86cd799439011''"
  by (simp add: anaId_def castObjectId_def toLowerCase_def toLowerChar_def)

lemma find_ana: "Client_findById anaStore (castObjectId anaId) = Some ana"
  by (simp add: cast_anaId Client_findById_def anaStore_def) (simp add: ana_def)

lemma find_ana_booked: "Client_findById (bookedStore st) (castObjectId anaId) = Some ana"
  by (simp add: cast_anaId Client_findById_def bookedStore_def) (simp add: ana_def)

lemma count_pending: "countActive (bookedStore ''Pendiente'') anaId = 1"
  by (simp add: countActive_def cast_anaId bookedStore_def oilChange_def isActive_def
      activeStatuses_def)

lemma count_done: "countActive (bookedStore ''Completado'') anaId = 0"
  by (simp add: countActive_def cast_anaId bookedStore_def oilChange_def isActive_def
      activeStatuses_def)


section \<open>Numbers in the safe range\<close>

lemma toDouble_safe: "\<bar>n\<bar> < 2 ^ 53 \<Longrightarrow> toDouble n = n"
  by (auto simp: toDouble_def roundMagnitude_def nat_less_iff)

lemma toNumber_safe: "\<bar>n\<bar> < 2 ^ 53 \<Longrightarrow> toNumber n = Some n"
proof -
  assume h: "\<bar>n\<bar> < 2 ^ 53"
  have "(2::int) ^ 53 < 2 ^ 1024" by (rule power_strict_increasing) simp_all
  with h have "\<bar>n\<bar> < 2 ^ 1024" by (rule less_trans)
  then show ?thesis using h by (simp add: toNumber_def toDouble_safe)
qed

lemma safe_factors:
  assumes "0 < (pg::int)" and "0 < lm" and "pg * lm < 2 ^ 53"
  shows "\<bar>pg\<bar> < 2 ^ 53" and "\<bar>lm\<bar> < 2 ^ 53" and "\<bar>pg - 1\<bar> < 2 ^ 53"
    and "\<bar>(pg - 1) * lm\<bar> < 2 ^ 53" and "\<bar>pg * lm\<bar> < 2 ^ 53" and "0 \<le> (pg - 1) * lm"
proof -
  have a: "pg \<le> pg * lm" using assms(1,2) by (simp add: mult_le_cancel_left1)
  have b: "lm \<le> pg * lm" using assms(1,2) by (simp add: mult_le_cancel_right1)
  have c: "(pg - 1) * lm \<le> pg * lm" using assms(2) by (simp add: mult_right_mono)
  have d: "0 \<le> (pg - 1) * lm" using assms(1,2) by simp
  have pg: "pg < 2 ^ 53" using a assms(3) by (rule le_less_trans)
  have lm: "lm < 2 ^ 53" using b assms(3) by (rule le_less_trans)
  have sk: "(pg - 1) * lm < 2 ^ 53" using c assms(3) by (rule le_less_trans)
  show "\<bar>pg\<bar> < 2 ^ 53" using pg assms(1) by (simp only: abs_of_pos)
  show "\<bar>lm\<bar> < 2 ^ 53" using lm assms(2) by (simp only: abs_of_pos)
  show "\<bar>pg - 1\<bar> < 2 ^ 53" using pg assms(1) by linarith
  show "\<bar>(pg - 1) * lm\<bar> < 2 ^ 53" using sk d by (simp only: abs_of_nonneg)
  have "0 < pg * lm" using assms(1,2) by simp
  then show "\<bar>pg * lm\<bar> < 2 ^ 53" using assms(3) by (simp only: abs_of_pos)
  show "0 \<le> (pg - 1) * lm" by (rule d)
qed

lemma queryNumbers_safe:
  assumes "pg = (case q_page q of None \<Rightarrow> 1 | Some p \<Rightarrow> p)"
    and "lm = (case q_limit q of None \<Rightarrow> 10 | Some l \<Rightarrow> l)"
    and "0 < pg" and "0 < lm" and "pg * lm < 2 ^ 53"
  shows "queryNumbers q = Some (pg, lm, (pg - 1) * lm)"
proof -
  note s = safe_factors [OF assms(3,4,5)]
  have p: "pageOf q = Some pg" using s(1) by (simp add: pageOf_def assms(1) [symmetric] toNumber_safe)
  have l: "limitOf q = Some lm" using s(2) by (simp add: limitOf_def assms(2) [symmetric] toNumber_safe)
  have m: "jsMinus (Some pg) (Some 1) = Some (pg - 1)"
    using s(3) by (simp add: jsMinus_def toNumber_safe)
  have k: "skipOf q = Some ((pg - 1) * lm)"
    using s(4) by (simp add: skipOf_def p l m jsTimes_def toNumber_safe)
  show ?thesis by (simp add: queryNumbers_def p l k)
qed


lemma double_of_2_53_plus_1: "toDouble 9007199254740993 = 9007199254740992"
proof -
  have "bitLength 9007199254740993 = 54" by (simp add: bitLength.simps)
  then show ?thesis by (simp add: toDouble_def roundMagnitude_def Let_def)
qed

lemma hugePage_currentPage:
  "map_option currentPage (pages (getAllClients L s hugePage)) = Some 9007199254740992"
proof -
  have big: "(9007199254740992::int) < 2 ^ 1024" "(90071992547409904::int) < 2 ^ 1024"
    by simp_all
  have p: "pageOf hugePage = Some 9007199254740992"
    using big by (simp add: pageOf_def hugePage_def toNumber_def double_of_2_53_plus_1)
  have l: "limitOf hugePage = Some 10"
    by (simp add: limitOf_def hugePage_def toNumber_safe)
  have m: "jsMinus (Some 9007199254740992) (Some 1) = Some 9007199254740991"
    by (simp add: jsMinus_def toNumber_safe)
  have "bitLength 90071992547409910 = 57" by (simp add: bitLength.simps)
  then have "toDouble 90071992547409910 = 90071992547409904"
    by (simp add: toDouble_def roundMagnitude_def Let_def)
  then have k: "skipOf hugePage = Some 90071992547409904"
    using big by (simp add: skipOf_def p l m jsTimes_def toNumber_def)
  show ?thesis
    by (simp add: getAllClients_def queryNumbers_def p l k skipLimit_def paginationOf_def Let_def)
qed

section \<open>Deleting a client\<close>

text \<open>
  C2. Let \<open>ident\<close> be a valid identifier that resolves to the client \<open>c\<close>. When \<open>c\<close> owns no
  reservation whose status is Pendiente or En proceso, \<open>deleteClient\<close> answers 200 and
  removes \<open>c\<close>, leaving the reservations as they were; when it owns at least one, the
  handler answers 400 with the active-reservations message and the store, clients and
  reservations alike, is the one it was given.
\<close>

theorem C2_deleteClient_guard:
  assumes "isValid ident" and "Client_findById s (castObjectId ident) = Some c"
  shows "(countActive s ident = 0 \<longrightarrow>
            deleteClient s ident =
              (reply 200 True Cliente_eliminado_exitosamente,
               s\<lparr>clients := remove1 c (clients s)\<rparr>))
       \<and> (countActive s ident > 0 \<longrightarrow>
            deleteClient s ident = (reply 400 False Tiene_reservas_activas, s))"
  using assms by (simp add: deleteClient_def Client_findByIdAndDelete_def)

theorem C2_deleteClient_guard_witness:
  "isValid anaId
   \<and> Client_findById (bookedStore ''Completado'') (castObjectId anaId) = Some ana
   \<and> countActive (bookedStore ''Completado'') anaId = 0
   \<and> deleteClient (bookedStore ''Completado'') anaId =
       (reply 200 True Cliente_eliminado_exitosamente,
        \<lparr>clients = [], reservations = [oilChange ''Completado'']\<rparr>)
   \<and> Client_findById (bookedStore ''Pendiente'') (castObjectId anaId) = Some ana
   \<and> countActive (bookedStore ''Pendiente'') anaId > 0
   \<and> deleteClient (bookedStore ''Pendiente'') anaId =
       (reply 400 False Tiene_reservas_activas, bookedStore ''Pendiente'')"
  using C2_deleteClient_guard [OF isValid_anaId find_ana_booked [of "''Completado''"]]
    C2_deleteClient_guard [OF isValid_anaId find_ana_booked [of "''Pendiente''"]]
    isValid_anaId find_ana_booked count_pending count_done
  by (simp add: bookedStore_def)

section \<open>Creating a reservation: the client reference\<close>




section \<open>Listing the reservations of a client\<close>

lemma validateId_no_id_param:
  "map_of ps ''id'' = None \<Longrightarrow>
     validateId ps = Some ((reply 400 False Errores_de_validacion)\<lparr>errors := [ID_no_valido]\<rparr>)"
  by (simp add: validateId_def isMongoId_def handleValidationErrors_def)

text \<open>
  C9. The route \<^verbatim>\<open>GET /reservations/client/:clientId\<close> runs \<open>validateId\<close> first, which
  checks the parameter named \<^verbatim>\<open>id\<close>; this route has none, so the request is answered
  400 with the validation message whatever the client identifier, the store and the
  query are, and \<open>getReservationsByClient\<close> is never reached. The second statement is the
  failing input: for the client of the reference store, whose identifier is valid and
  who exists, the handler alone answers 200 and the route answers 400.
\<close>

theorem C9_get_reservations_client_rejects:
  "get_reservations_client s clientId q =
     (reply 400 False Errores_de_validacion)\<lparr>errors := [ID_no_valido]\<rparr>
   \<and> status (getReservationsByClient (bookedStore ''Pendiente'') anaId firstPage) = 200
   \<and> status (get_reservations_client (bookedStore ''Pendiente'') anaId firstPage) = 400"
proof -
  have a: "\<And>s clientId q. get_reservations_client s clientId q =
     (reply 400 False Errores_de_validacion)\<lparr>errors := [ID_no_valido]\<rparr>"
    by (simp add: get_reservations_client_def validateId_no_id_param)
  have "queryNumbers firstPage = Some (1, 10, (1 - 1) * 10)"
    by (rule queryNumbers_safe) (simp_all add: firstPage_def)
  then have b: "status (getReservationsByClient (bookedStore ''Pendiente'') anaId firstPage) = 200"
    by (simp add: getReservationsByClient_def isValid_anaId find_ana_booked skipLimit_def Let_def)
  show ?thesis using a b by (simp add: reply_def)
qed

section \<open>Duplicate-key errors of the store\<close>

lemma castEmail_ana: "castEmail ''ana@x.com'' = ''ana@x.com''"
  by (simp add: castEmail_def trim_def isSpace_def toLowerCase_def toLowerChar_def)

lemma castEmail_bob: "castEmail ''bob@x.com'' = ''bob@x.com''"
  by (simp add: castEmail_def trim_def isSpace_def toLowerCase_def toLowerChar_def)

lemma trim_ana_name: "trim ''Ana Ruiz'' = ''Ana Ruiz''"
  by (simp add: trim_def isSpace_def)

lemma trim_ana_phone: "trim ''+573000000'' = ''+573000000''"
  by (simp add: trim_def isSpace_def)

lemma validPhone_ana: "validPhone ''+573000000''"
  by (simp add: validPhone_def phoneMatch_def isDigit_def)

lemma save_ana_again: "Client_save exLib exEnv anaStore anaBody = Inl (MongoServerError 11000)"
  by (simp add: Client_save_def anaBody_def castEmail_ana trim_ana_name trim_ana_phone
      validPhone_ana validName_def validEmail_def validPassword_def validAge_def Let_def
      preSave_client_def)
    (simp add: exLib_def exEnv_def anaStore_def ana_def)

lemma update_ana_to_bob:
  "Client_findByIdAndUpdate exLib exEnv pairStore anaId (emailOnly ''bob@x.com'') =
     Inl (MongoServerError 11000)"
  by (simp add: Client_findByIdAndUpdate_def Let_def castPatch_def validPatch_def emailOnly_def
      emptyPatch_def castEmail_bob cast_anaId validEmail_def applyPatch_def Client_findById_def)
    (simp add: exLib_def pairStore_def ana_def bob_def Let_def applyPatch_def)

text \<open>
  C10. In \<open>createClient_on\<close> and \<open>updateClient_on\<close> the pre-check reads the store \<open>seen\<close>
  and the write runs against the store \<open>s\<close>. When the pre-check passes and the write
  fails with a driver error of code 11000, both handlers answer 400 with the message
  "El email ya est\'a registrado" and leave the store as it was: the response the
  pre-check itself gives when it finds the email (the two last statements).
\<close>

theorem C10_duplicate_key_is_duplicate_email:
  "(Client_findOne seen (b_email b) = None \<and> Client_save L E s b = Inl e \<and> code e = Some 11000
      \<longrightarrow> createClient_on L E seen s b = (reply 400 False El_email_ya_esta_registrado, s))
   \<and> (isValid ident
       \<and> \<not> (truthy (b_email p) \<and> Client_findOne_ne seen (the (b_email p)) ident \<noteq> None)
       \<and> Client_findByIdAndUpdate L E s ident p = Inl e \<and> code e = Some 11000
      \<longrightarrow> updateClient_on L E seen s ident p = (reply 400 False El_email_ya_esta_registrado, s))
   \<and> (Client_findOne seen (b_email b) \<noteq> None
      \<longrightarrow> createClient_on L E seen s b = (reply 400 False El_email_ya_esta_registrado, s))
   \<and> (isValid ident \<and> truthy (b_email p) \<and> Client_findOne_ne seen (the (b_email p)) ident \<noteq> None
      \<longrightarrow> updateClient_on L E seen s ident p = (reply 400 False El_email_ya_esta_registrado, s))"
proof (intro conjI impI)
  assume "Client_findOne seen (b_email b) = None \<and> Client_save L E s b = Inl e \<and> code e = Some 11000"
  then show "createClient_on L E seen s b = (reply 400 False El_email_ya_esta_registrado, s)"
    by (simp add: createClient_on_def duplicateEmail_def)
next
  assume "isValid ident
       \<and> \<not> (truthy (b_email p) \<and> Client_findOne_ne seen (the (b_email p)) ident \<noteq> None)
       \<and> Client_findByIdAndUpdate L E s ident p = Inl e \<and> code e = Some 11000"
  then show "updateClient_on L E seen s ident p = (reply 400 False El_email_ya_esta_registrado, s)"
    by (simp add: updateClient_on_def duplicateEmail_def)
next
  assume "Client_findOne seen (b_email b) \<noteq> None"
  then show "createClient_on L E seen s b = (reply 400 False El_email_ya_esta_registrado, s)"
    by (auto simp: createClient_on_def duplicateEmail_def)
next
  assume "isValid ident \<and> truthy (b_email p) \<and> Client_findOne_ne seen (the (b_email p)) ident \<noteq> None"
  then show "updateClient_on L E seen s ident p = (reply 400 False El_email_ya_esta_registrado, s)"
    by (simp add: updateClient_on_def duplicateEmail_def)
qed

theorem C10_duplicate_key_is_duplicate_email_witness:
  "Client_findOne emptyStore (b_email anaBody) = None
   \<and> Client_save exLib exEnv anaStore anaBody = Inl (MongoServerError 11000)
   \<and> code (MongoServerError 11000) = Some 11000
   \<and> createClient_on exLib exEnv emptyStore anaStore anaBody =
       (reply 400 False El_email_ya_esta_registrado, anaStore)
   \<and> isValid anaId
   \<and> Client_findOne_ne anaStore (the (b_email (emailOnly ''bob@x.com''))) anaId = None
   \<and> Client_findByIdAndUpdate exLib exEnv pairStore anaId (emailOnly ''bob@x.com'') =
       Inl (MongoServerError 11000)
   \<and> updateClient_on exLib exEnv anaStore pairStore anaId (emailOnly ''bob@x.com'') =
       (reply 400 False El_email_ya_esta_registrado, pairStore)
   \<and> Client_findOne anaStore (b_email anaBody) \<noteq> None
   \<and> createClient_on exLib exEnv anaStore anaStore anaBody =
       (reply 400 False El_email_ya_esta_registrado, anaStore)
   \<and> truthy (b_email (emailOnly ''bob@x.com''))
   \<and> Client_findOne_ne pairStore (the (b_email (emailOnly ''bob@x.com''))) anaId \<noteq> None
   \<and> updateClient_on exLib exEnv pairStore pairStore anaId (emailOnly ''bob@x.com'') =
       (reply 400 False El_email_ya_esta_registrado, pairStore)"
proof -
  have a: "Client_findOne emptyStore (b_email anaBody) = None"
    by (simp add: Client_findOne_def emptyStore_def anaBody_def)
  have b: "Client_findOne_ne anaStore (the (b_email (emailOnly ''bob@x.com''))) anaId = None"
    by (simp add: Client_findOne_ne_def emailOnly_def castEmail_bob cast_anaId anaStore_def)
      (simp add: ana_def)
  have c: "Client_findOne anaStore (b_email anaBody) \<noteq> None"
    by (simp add: Client_findOne_def anaBody_def castEmail_ana anaStore_def) (simp add: ana_def)
  have d: "truthy (b_email (emailOnly ''bob@x.com''))"
    by (simp add: truthy_def emailOnly_def)
  have e: "Client_findOne_ne pairStore (the (b_email (emailOnly ''bob@x.com''))) anaId \<noteq> None"
    by (simp add: Client_findOne_ne_def emailOnly_def castEmail_bob cast_anaId pairStore_def)
      (simp add: ana_def bob_def)
  note w1 = C10_duplicate_key_is_duplicate_email
    [of emptyStore anaBody exLib exEnv anaStore "MongoServerError 11000" anaId
      "emailOnly ''bob@x.com''"]
  note w2 = C10_duplicate_key_is_duplicate_email
    [of anaStore anaBody exLib exEnv pairStore "MongoServerError 11000" anaId
      "emailOnly ''bob@x.com''"]
  note w3 = C10_duplicate_key_is_duplicate_email
    [of pairStore anaBody exLib exEnv pairStore "MongoServerError 11000" anaId
      "emailOnly ''bob@x.com''"]
  note w4 = C10_duplicate_key_is_duplicate_email
    [of anaStore anaBody exLib exEnv anaStore "MongoServerError 11000" anaId
      "emailOnly ''bob@x.com''"]
  have r1: "createClient_on exLib exEnv emptyStore anaStore anaBody =
       (reply 400 False El_email_ya_esta_registrado, anaStore)"
    using w1 a save_ana_again by simp
  have r2: "updateClient_on exLib exEnv anaStore pairStore anaId (emailOnly ''bob@x.com'') =
       (reply 400 False El_email_ya_esta_registrado, pairStore)"
    using w2 b update_ana_to_bob isValid_anaId by simp
  have r3: "createClient_on exLib exEnv anaStore anaStore anaBody =
       (reply 400 False El_email_ya_esta_registrado, anaStore)"
    using w4 c by simp
  have r4: "updateClient_on exLib exEnv pairStore pairStore anaId (emailOnly ''bob@x.com'') =
       (reply 400 False El_email_ya_esta_registrado, pairStore)"
    using w3 d e isValid_anaId by simp
  show ?thesis
    using a b c d e r1 r2 r3 r4 save_ana_again update_ana_to_bob isValid_anaId by simp
qed

section \<open>Pagination arithmetic\<close>

lemma mathCeilDiv_div: "k \<noteq> 0 \<Longrightarrow> mathCeilDiv n k = Some (- ((- n) div k))"
proof -
  assume k: "k \<noteq> 0"
  have "- ((of_int n :: rat) / of_int k) = of_int (- n) / of_int k" by simp
  then have "\<lfloor>- ((of_int n :: rat) / of_int k)\<rfloor> = (- n) div k"
    by (simp only: floor_divide_of_int_eq)
  then show ?thesis using k by (simp add: mathCeilDiv_def ceiling_def)
qed

lemma neg_div_ceiling: "0 < (k::int) \<Longrightarrow> - ((- n) div k) = (n + k - 1) div k"
proof -
  assume k: "0 < k"
  define q where "q = (n + k - 1) div k"
  define r where "r = (n + k - 1) mod k"
  have r: "0 \<le> r" "r < k" using k by (simp_all add: r_def)
  have "n + k - 1 = k * q + r" by (simp add: q_def r_def)
  then have "- n = k * (- q) + (k - 1 - r)" by (simp add: algebra_simps)
  moreover have "0 \<le> k - 1 - r" "k - 1 - r < k" using r by simp_all
  ultimately have "(- n) div k = - q" by (rule int_div_pos_eq)
  then show ?thesis by (simp add: q_def)
qed

lemma mathCeilDiv_pos: "0 < k \<Longrightarrow> mathCeilDiv n k = Some ((n + k - 1) div k)"
  using mathCeilDiv_div [of k n] neg_div_ceiling [of k n] by simp

lemma skipLimit_pos:
  assumes "0 \<le> k" and "0 < l"
  shows "skipLimit k l xs = Inr (take (nat l) (drop (nat k) xs))"
  using assms by (simp add: skipLimit_def)

text \<open>
  C8. Let \<open>pg\<close> and \<open>lm\<close> be the page and the limit of a list query (1 and 10 when the
  parameter is absent), both positive, with \<open>pg * lm\<close> below \<open>2 ^ 53\<close>, the range in which
  the handler's arithmetic on doubles is exact. \<open>getAllClients\<close> answers 200 with the
  records of the matching clients, newest first, from offset \<open>(pg - 1) * lm\<close> on and at
  most \<open>lm\<close> of them, and with the summary \<open>totalPages = \<lceil>total / lm\<rceil>\<close> (which is
  \<open>(total + lm - 1) div lm\<close>), \<open>hasNext = (pg * lm < total)\<close>, \<open>hasPrev = (pg > 1)\<close>, where
  \<open>total\<close> is the number of matching clients. With 25 matching clients and limit 10,
  page 1 carries the first ten with \<open>hasNext\<close> and not \<open>hasPrev\<close>, and page 3 carries the
  five from the twenty-first on with \<open>hasPrev\<close> and not \<open>hasNext\<close>; both report three
  pages.
\<close>

theorem C8_getAllClients_pagination:
  fixes L :: lib and s :: store and q :: clientQuery and pg lm :: int
  assumes "pg = (case q_page q of None \<Rightarrow> 1 | Some p \<Rightarrow> p)"
    and "lm = (case q_limit q of None \<Rightarrow> 10 | Some l \<Rightarrow> l)"
    and "0 < pg" and "0 < lm" and "pg * lm < 2 ^ 53"
  defines "n \<equiv> length (filter (clientFilter L q) (clients s))"
  defines "slice \<equiv> take (nat lm) (drop (nat ((pg - 1) * lm)) (Client_find L s q))"
  shows "getAllClients L s q =
           \<lparr>status = 200, success = True, message = None,
            data = ClientList (map selectMinusPassword slice), errors = [],
            pages = Some \<lparr>currentPage = pg,
                          totalPages = Some \<lceil>(of_nat n :: rat) / of_int lm\<rceil>,
                          totalRecords = int n,
                          hasNext = (pg * lm < int n),
                          hasPrev = (pg > 1)\<rparr>,
            error = None\<rparr>
         \<and> mset (Client_find L s q) = mset (filter (clientFilter L q) (clients s))
         \<and> sorted (map (\<lambda>c. - c_createdAt c) (Client_find L s q))
         \<and> int (length slice) \<le> lm
         \<and> \<lceil>(of_nat n :: rat) / of_int lm\<rceil> = (int n + lm - 1) div lm
         \<and> (n = 25 \<and> lm = 10 \<and> pg = 1 \<longrightarrow>
              slice = take 10 (Client_find L s q) \<and> length slice = 10
              \<and> pages (getAllClients L s q) =
                  Some \<lparr>currentPage = 1, totalPages = Some 3, totalRecords = 25,
                        hasNext = True, hasPrev = False\<rparr>)
         \<and> (n = 25 \<and> lm = 10 \<and> pg = 3 \<longrightarrow>
              slice = drop 20 (Client_find L s q) \<and> length slice = 5
              \<and> pages (getAllClients L s q) =
                  Some \<lparr>currentPage = 3, totalPages = Some 3, totalRecords = 25,
                        hasNext = False, hasPrev = True\<rparr>)"
proof -
  have len: "length (Client_find L s q) = n"
    by (simp add: Client_find_def n_def)
  have cnt: "Client_countDocuments L s q = n"
    by (simp add: Client_countDocuments_def n_def)
  have ms: "mset (Client_find L s q) = mset (filter (clientFilter L q) (clients s))"
    by (simp add: Client_find_def)
  have so: "sorted (map (\<lambda>c. - c_createdAt c) (Client_find L s q))"
    by (simp add: Client_find_def)
  have qn: "queryNumbers q = Some (pg, lm, (pg - 1) * lm)"
    using assms(1-5) by (rule queryNumbers_safe)
  note sf = safe_factors [OF assms(3,4,5)]
  have sl: "skipLimit ((pg - 1) * lm) lm (Client_find L s q) = Inr slice"
    unfolding slice_def using sf(6) assms(4) by (rule skipLimit_pos)
  have prod: "toNumber (pg * lm) = Some (pg * lm)"
    using sf(5) by (rule toNumber_safe)
  have lm0: "lm \<noteq> 0" using assms(4) by simp
  have "mathCeilDiv (int n) lm = Some ((int n + lm - 1) div lm)"
    using assms(4) by (rule mathCeilDiv_pos)
  then have c: "\<lceil>(of_nat n :: rat) / of_int lm\<rceil> = (int n + lm - 1) div lm"
    using lm0 by (simp add: mathCeilDiv_def)
  have a: "getAllClients L s q =
           \<lparr>status = 200, success = True, message = None,
            data = ClientList (map selectMinusPassword slice), errors = [],
            pages = Some \<lparr>currentPage = pg,
                          totalPages = Some \<lceil>(of_nat n :: rat) / of_int lm\<rceil>,
                          totalRecords = int n,
                          hasNext = (pg * lm < int n),
                          hasPrev = (pg > 1)\<rparr>,
            error = None\<rparr>"
    using lm0 by (simp add: getAllClients_def qn sl cnt paginationOf_def prod mathCeilDiv_def)
  have b: "int (length slice) \<le> lm" using assms(4) by (simp add: slice_def)
  have d: "n = 25 \<and> lm = 10 \<and> pg = 1 \<longrightarrow>
              slice = take 10 (Client_find L s q) \<and> length slice = 10
              \<and> pages (getAllClients L s q) =
                  Some \<lparr>currentPage = 1, totalPages = Some 3, totalRecords = 25,
                        hasNext = True, hasPrev = False\<rparr>"
  proof
    assume h: "n = 25 \<and> lm = 10 \<and> pg = 1"
    then have "slice = take 10 (Client_find L s q)" by (simp add: slice_def)
    moreover from this have "length slice = 10" using len h by simp
    moreover have "pages (getAllClients L s q) =
                  Some \<lparr>currentPage = 1, totalPages = Some 3, totalRecords = 25,
                        hasNext = True, hasPrev = False\<rparr>"
    proof -
      have "(int n + lm - 1) div lm = 3" using h by simp
      with c have "\<lceil>(of_nat n :: rat) / of_int lm\<rceil> = 3" by (simp only:)
      then have "pages (getAllClients L s q) =
                  Some \<lparr>currentPage = pg, totalPages = Some 3, totalRecords = int n,
                        hasNext = (pg * lm < int n), hasPrev = (pg > 1)\<rparr>"
        by (simp add: a)
      then show ?thesis using h by simp
    qed
    ultimately show "slice = take 10 (Client_find L s q) \<and> length slice = 10
              \<and> pages (getAllClients L s q) =
                  Some \<lparr>currentPage = 1, totalPages = Some 3, totalRecords = 25,
                        hasNext = True, hasPrev = False\<rparr>"
      by simp
  qed
  have e: "n = 25 \<and> lm = 10 \<and> pg = 3 \<longrightarrow>
              slice = drop 20 (Client_find L s q) \<and> length slice = 5
              \<and> pages (getAllClients L s q) =
                  Some \<lparr>currentPage = 3, totalPages = Some 3, totalRecords = 25,
                        hasNext = False, hasPrev = True\<rparr>"
  proof
    assume h: "n = 25 \<and> lm = 10 \<and> pg = 3"
    then have "slice = drop 20 (Client_find L s q)" using len by (simp add: slice_def)
    moreover from this have "length slice = 5" using len h by simp
    moreover have "pages (getAllClients L s q) =
                  Some \<lparr>currentPage = 3, totalPages = Some 3, totalRecords = 25,
                        hasNext = False, hasPrev = True\<rparr>"
    proof -
      have "(int n + lm - 1) div lm = 3" using h by simp
      with c have "\<lceil>(of_nat n :: rat) / of_int lm\<rceil> = 3" by (simp only:)
      then have "pages (getAllClients L s q) =
                  Some \<lparr>currentPage = pg, totalPages = Some 3, totalRecords = int n,
                        hasNext = (pg * lm < int n), hasPrev = (pg > 1)\<rparr>"
        by (simp add: a)
      then show ?thesis using h by simp
    qed
    ultimately show "slice = drop 20 (Client_find L s q) \<and> length slice = 5
              \<and> pages (getAllClients L s q) =
                  Some \<lparr>currentPage = 3, totalPages = Some 3, totalRecords = 25,
                        hasNext = False, hasPrev = True\<rparr>"
      by simp
  qed
  show ?thesis using a ms so b c d e by blast
qed

lemma crowd_sorted:
  "sort_key (\<lambda>c. - c_createdAt c) (map numbered [0..<25]) = map numbered (rev [0..<25])"
  by code_simp

lemma crowd_find: "Client_find exLib crowd (pageOnly p l) = map numbered (rev [0..<25])"
  by (simp add: Client_find_def clientFilter_def truthy_def pageOnly_def crowd_def crowd_sorted)

lemma crowd_count:
  "length (filter (clientFilter exLib (pageOnly p l)) (clients crowd)) = 25"
  by (simp add: clientFilter_def truthy_def pageOnly_def crowd_def)

lemma pageOnly_page: "(case q_page (pageOnly p l) of None \<Rightarrow> 1 | Some x \<Rightarrow> x) = p"
  by (simp add: pageOnly_def)

lemma pageOnly_limit: "(case q_limit (pageOnly p l) of None \<Rightarrow> 10 | Some x \<Rightarrow> x) = l"
  by (simp add: pageOnly_def)

lemma crowd_first_ten:
  "take 10 (map numbered (rev [0..<25])) = map numbered [24, 23, 22, 21, 20, 19, 18, 17, 16, 15]"
  by code_simp

lemma crowd_second_seven:
  "take 7 (drop 7 (map numbered (rev [0..<25]))) = map numbered [17, 16, 15, 14, 13, 12, 11]"
  by code_simp

lemma crowd_last_five: "drop 20 (map numbered (rev [0..<25])) = map numbered [4, 3, 2, 1, 0]"
  by code_simp
theorem C8_getAllClients_pagination_witness:
  "(2::int) = (case q_page (pageOnly 2 7) of None \<Rightarrow> 1 | Some p \<Rightarrow> p)
   \<and> (7::int) = (case q_limit (pageOnly 2 7) of None \<Rightarrow> 10 | Some l \<Rightarrow> l)
   \<and> (0::int) < 2 \<and> (0::int) < 7 \<and> (2::int) * 7 < 2 ^ 53
   \<and> getAllClients exLib crowd (pageOnly 2 7) =
       \<lparr>status = 200, success = True, message = None,
        data = ClientList (map selectMinusPassword
                             (map numbered [17, 16, 15, 14, 13, 12, 11])),
        errors = [],
        pages = Some \<lparr>currentPage = 2, totalPages = Some 4, totalRecords = 25,
                       hasNext = True, hasPrev = True\<rparr>,
        error = None\<rparr>
   \<and> length (filter (clientFilter exLib (pageOnly 1 10)) (clients crowd)) = 25
   \<and> (10::int) = (case q_limit (pageOnly 1 10) of None \<Rightarrow> 10 | Some l \<Rightarrow> l)
   \<and> (1::int) = (case q_page (pageOnly 1 10) of None \<Rightarrow> 1 | Some p \<Rightarrow> p)
   \<and> data (getAllClients exLib crowd (pageOnly 1 10)) =
       ClientList (map selectMinusPassword
                     (map numbered [24, 23, 22, 21, 20, 19, 18, 17, 16, 15]))
   \<and> pages (getAllClients exLib crowd (pageOnly 1 10)) =
       Some \<lparr>currentPage = 1, totalPages = Some 3, totalRecords = 25, hasNext = True,
             hasPrev = False\<rparr>
   \<and> length (filter (clientFilter exLib (pageOnly 3 10)) (clients crowd)) = 25
   \<and> (10::int) = (case q_limit (pageOnly 3 10) of None \<Rightarrow> 10 | Some l \<Rightarrow> l)
   \<and> (3::int) = (case q_page (pageOnly 3 10) of None \<Rightarrow> 1 | Some p \<Rightarrow> p)
   \<and> data (getAllClients exLib crowd (pageOnly 3 10)) =
       ClientList (map selectMinusPassword (map numbered [4, 3, 2, 1, 0]))
   \<and> pages (getAllClients exLib crowd (pageOnly 3 10)) =
       Some \<lparr>currentPage = 3, totalPages = Some 3, totalRecords = 25, hasNext = False,
             hasPrev = True\<rparr>"
proof -
  have p2: "(2::int) = (case q_page (pageOnly 2 7) of None \<Rightarrow> 1 | Some p \<Rightarrow> p)"
    and l7: "(7::int) = (case q_limit (pageOnly 2 7) of None \<Rightarrow> 10 | Some l \<Rightarrow> l)"
    and p1: "(1::int) = (case q_page (pageOnly 1 10) of None \<Rightarrow> 1 | Some p \<Rightarrow> p)"
    and l1: "(10::int) = (case q_limit (pageOnly 1 10) of None \<Rightarrow> 10 | Some l \<Rightarrow> l)"
    and p3: "(3::int) = (case q_page (pageOnly 3 10) of None \<Rightarrow> 1 | Some p \<Rightarrow> p)"
    and l3: "(10::int) = (case q_limit (pageOnly 3 10) of None \<Rightarrow> 10 | Some l \<Rightarrow> l)"
    by (simp_all add: pageOnly_def)
  have n2: "(0::int) < 2" "(0::int) < 7" "(2::int) * 7 < 2 ^ 53"
    and n1: "(0::int) < 1" "(0::int) < 10" "(1::int) * 10 < 2 ^ 53"
    and n3: "(0::int) < 3" "(0::int) < 10" "(3::int) * 10 < 2 ^ 53"
    by simp_all
  note second = C8_getAllClients_pagination [OF p2 l7 n2, of exLib crowd]
  note first = C8_getAllClients_pagination [OF p1 l1 n1, of exLib crowd]
  note third = C8_getAllClients_pagination [OF p3 l3 n3, of exLib crowd]
  have r2: "getAllClients exLib crowd (pageOnly 2 7) =
       \<lparr>status = 200, success = True, message = None,
        data = ClientList (map selectMinusPassword
                             (map numbered [17, 16, 15, 14, 13, 12, 11])),
        errors = [],
        pages = Some \<lparr>currentPage = 2, totalPages = Some 4, totalRecords = 25,
                       hasNext = True, hasPrev = True\<rparr>,
        error = None\<rparr>"
    using second
    by (simp only: crowd_count crowd_find) (simp add: crowd_second_seven)
  have d1: "data (getAllClients exLib crowd (pageOnly 1 10)) =
       ClientList (map selectMinusPassword
                     (map numbered [24, 23, 22, 21, 20, 19, 18, 17, 16, 15]))"
    using first
    by (simp only: crowd_count crowd_find) (simp add: crowd_first_ten)
  have g1: "pages (getAllClients exLib crowd (pageOnly 1 10)) =
       Some \<lparr>currentPage = 1, totalPages = Some 3, totalRecords = 25, hasNext = True,
             hasPrev = False\<rparr>"
    using first by (simp only: crowd_count) simp
  have d3: "data (getAllClients exLib crowd (pageOnly 3 10)) =
       ClientList (map selectMinusPassword (map numbered [4, 3, 2, 1, 0]))"
    using third
    by (simp only: crowd_count crowd_find) (simp add: crowd_last_five)
  have g3: "pages (getAllClients exLib crowd (pageOnly 3 10)) =
       Some \<lparr>currentPage = 3, totalPages = Some 3, totalRecords = 25, hasNext = False,
             hasPrev = True\<rparr>"
    using third by (simp only: crowd_count) simp
  show ?thesis
    using r2 d1 g1 d3 g3 by (simp add: crowd_count pageOnly_page pageOnly_limit)
qed

section \<open>What the client writes leave in the store\<close>

lemma find_append_last:
  "find P xs = None \<Longrightarrow> P y \<Longrightarrow> find P (xs @ [y]) = Some y"
  by (induction xs) (auto split: if_splits)

lemma list_ex_find_None: "\<not> list_ex P xs \<Longrightarrow> find P xs = None"
  by (simp add: find_None_iff list_ex_iff)

lemma map_updateFirst:
  "find P xs = Some c \<Longrightarrow> f c' = f c \<Longrightarrow> map f (updateFirst P c' xs) = map f xs"
  by (induction xs) (auto split: if_splits)

lemma find_updateFirst:
  "find P xs = Some c \<Longrightarrow> P c' \<Longrightarrow> find P (updateFirst P c' xs) = Some c'"
  by (induction xs) (auto split: if_splits)

lemma Client_save_Inr:
  assumes "Client_save L E s b = Inr (saved, s')"
  shows "\<exists>n e p ph a.
           b_name b = Some n \<and> b_email b = Some e \<and> b_password b = Some p
           \<and> b_phone b = Some ph \<and> b_age b = Some a
           \<and> saved = \<lparr>c_id = newId E, c_name = trim n, c_email = castEmail e,
                        c_password = bcryptHash L p (salt E), c_phone = trim ph, c_age = a,
                        c_createdAt = now E, c_updatedAt = now E\<rparr>
           \<and> validPassword p
           \<and> \<not> list_ex (\<lambda>c. c_id c = newId E \<or> c_email c = castEmail e) (clients s)
           \<and> s' = s\<lparr>clients := clients s @ [saved]\<rparr>"
  using assms
  by (auto simp: Client_save_def Let_def preSave_client_def split: option.splits if_splits)

lemma createClient_201:
  assumes "createClient L E s b = (r, s')" and "status r = 201"
  shows "\<exists>saved. Client_save L E s b = Inr (saved, s')
                \<and> r = (reply 201 True Cliente_creado_exitosamente)\<lparr>data := ClientData (toJSON saved)\<rparr>"
  using assms
  by (auto simp: createClient_def createClient_on_def duplicateEmail_def reply_def
      serverError_def split: option.splits sum.splits if_splits)

lemma toJSON_fields:
  "toJSON c =
     [(''_id'', JId (c_id c)), (''name'', JStr (c_name c)), (''email'', JStr (c_email c)),
      (''phone'', JStr (c_phone c)), (''age'', JNum (c_age c)),
      (''createdAt'', JDate (c_createdAt c)), (''updatedAt'', JDate (c_updatedAt c))]"
  by (simp add: toJSON_def toObject_def deleteKey_def)

lemma selectMinusPassword_fields: "selectMinusPassword c = toJSON c"
  by (simp add: selectMinusPassword_def toJSON_def deleteKey_def)

lemma no_password_toJSON: "\<not> hasKey ''password'' (toJSON c)"
  by (simp add: toJSON_fields hasKey_def)

lemma Client_findByIdAndUpdate_Some:
  assumes "Client_findByIdAndUpdate L E s ident p = Inr (Some c', s')"
  shows "\<exists>c. Client_findById s (castObjectId ident) = Some c
             \<and> c' = applyPatch E (castPatch p) c
             \<and> s' = s\<lparr>clients := updateFirst (\<lambda>d. c_id d = castObjectId ident) c' (clients s)\<rparr>"
  using assms
  by (auto simp: Client_findByIdAndUpdate_def Let_def split: option.splits if_splits)

lemma Client_findByIdAndUpdate_None:
  "Client_findByIdAndUpdate L E s ident p = Inr (None, s') \<Longrightarrow> s' = s"
  by (auto simp: Client_findByIdAndUpdate_def Let_def split: option.splits if_splits)

lemma updateClient_cases:
  "snd (updateClient L E s ident p) = s
   \<or> (\<exists>c' s'. Client_findByIdAndUpdate L E s ident p = Inr (Some c', s')
        \<and> updateClient L E s ident p =
            ((reply 200 True Cliente_actualizado_exitosamente)
               \<lparr>data := ClientData (selectMinusPassword c')\<rparr>, s'))"
proof (cases "Client_findByIdAndUpdate L E s ident p")
  case (Inl e)
  then show ?thesis by (simp add: updateClient_def updateClient_on_def)
next
  case (Inr x)
  obtain oc s' where x: "x = (oc, s')" by (cases x)
  show ?thesis
  proof (cases oc)
    case None
    with Inr x have "s' = s" by (simp add: Client_findByIdAndUpdate_None)
    with Inr x None show ?thesis by (simp add: updateClient_def updateClient_on_def)
  next
    case (Some c')
    with Inr x show ?thesis by (simp add: updateClient_def updateClient_on_def)
  qed
qed

section \<open>Client responses\<close>

lemma noPasswordKey_getClientById: "noPasswordKey (getClientById s ident)"
  by (simp add: noPasswordKey_def getClientById_def reply_def selectMinusPassword_fields
      no_password_toJSON split: option.splits)

lemma noPasswordKey_getAllClients: "noPasswordKey (getAllClients L s q)"
  by (simp add: noPasswordKey_def getAllClients_def reply_def serverError_def
      selectMinusPassword_fields no_password_toJSON list_all_iff
      split: sum.splits option.splits prod.splits)

lemma noPasswordKey_createClient: "noPasswordKey (fst (createClient L E s b))"
  by (simp add: noPasswordKey_def createClient_def createClient_on_def duplicateEmail_def
      reply_def serverError_def no_password_toJSON split: option.splits sum.splits prod.splits)

lemma noPasswordKey_updateClient: "noPasswordKey (fst (updateClient L E s ident p))"
  by (simp add: noPasswordKey_def updateClient_def updateClient_on_def duplicateEmail_def
      reply_def serverError_def selectMinusPassword_fields no_password_toJSON
      split: option.splits sum.splits prod.splits)

lemma created_is_found:
  assumes "Client_save L E s b = Inr (saved, s')"
  shows "Client_findById s' (newId E) = Some saved"
proof -
  from Client_save_Inr [OF assms] obtain e where
    id: "c_id saved = newId E"
    and fresh: "\<not> list_ex (\<lambda>c. c_id c = newId E \<or> c_email c = castEmail e) (clients s)"
    and s': "s' = s\<lparr>clients := clients s @ [saved]\<rparr>"
    by auto
  from fresh have "\<not> list_ex (\<lambda>c. c_id c = newId E) (clients s)"
    by (auto simp: list_ex_iff)
  then have "find (\<lambda>c. c_id c = newId E) (clients s) = None"
    by (rule list_ex_find_None)
  then have "find (\<lambda>c. c_id c = newId E) (clients s @ [saved]) = Some saved"
    using id by (rule find_append_last)
  then show ?thesis by (simp add: Client_findById_def s')
qed

lemma phone_patch_frame:
  assumes "b_name p = None" and "b_email p = None" and "b_age p = None"
  shows "map c_name (clients (snd (updateClient L E s ident p))) = map c_name (clients s)
       \<and> map c_email (clients (snd (updateClient L E s ident p))) = map c_email (clients s)
       \<and> map c_age (clients (snd (updateClient L E s ident p))) = map c_age (clients s)"
proof -
  from updateClient_cases [of L E s ident p] show ?thesis
  proof
    assume "snd (updateClient L E s ident p) = s"
    then show ?thesis by simp
  next
    assume "\<exists>c' s'. Client_findByIdAndUpdate L E s ident p = Inr (Some c', s')
        \<and> updateClient L E s ident p =
            ((reply 200 True Cliente_actualizado_exitosamente)
               \<lparr>data := ClientData (selectMinusPassword c')\<rparr>, s')"
    then obtain c' s' where
      u: "Client_findByIdAndUpdate L E s ident p = Inr (Some c', s')"
      and r: "snd (updateClient L E s ident p) = s'"
      by auto
    from Client_findByIdAndUpdate_Some [OF u] obtain c where
      f: "find (\<lambda>d. c_id d = castObjectId ident) (clients s) = Some c"
      and c': "c' = applyPatch E (castPatch p) c"
      and s': "s' = s\<lparr>clients := updateFirst (\<lambda>d. c_id d = castObjectId ident) c' (clients s)\<rparr>"
      by (auto simp: Client_findById_def)
    have "c_name c' = c_name c" "c_email c' = c_email c" "c_age c' = c_age c"
      using assms by (simp_all add: c' applyPatch_def castPatch_def)
    then show ?thesis
      using f by (simp add: r s' map_updateFirst)
  qed
qed

text \<open>
  C7. Round trip: when \<open>createClient\<close> answers 201 and the identifier the driver gave is
  canonical (a valid identifier that casts to itself), \<open>getClientById\<close> on the new store
  with that identifier answers 200 with the object of the stored client less its
  password key, the object the 201 response carried. No client object in a response of
  \<open>getClientById\<close>, \<open>getAllClients\<close>, \<open>createClient\<close> or \<open>updateClient\<close> has a password key.
  Frame: an update whose patch has no name, no email, no password and no age leaves the
  name, the email and the age of every client as they were.
\<close>

theorem C7_client_roundtrip_and_frame:
  "(createClient L E s b = (r, s') \<and> status r = 201
      \<and> isValid (toString (newId E)) \<and> castObjectId (toString (newId E)) = newId E \<longrightarrow>
      (\<exists>saved. saved \<in> set (clients s') \<and> c_id saved = newId E
         \<and> getClientById s' (toString (newId E)) =
             \<lparr>status = 200, success = True, message = None,
              data = ClientData (deleteKey ''password'' (toObject saved)), errors = [],
              pages = None, error = None\<rparr>
         \<and> data r = ClientData (deleteKey ''password'' (toObject saved))))
   \<and> noPasswordKey (getClientById s ident)
   \<and> noPasswordKey (getAllClients L s q)
   \<and> noPasswordKey (fst (createClient L E s b))
   \<and> noPasswordKey (fst (updateClient L E s ident p))
   \<and> (b_name p = None \<and> b_email p = None \<and> b_password p = None \<and> b_age p = None \<longrightarrow>
        map c_name (clients (snd (updateClient L E s ident p))) = map c_name (clients s)
        \<and> map c_email (clients (snd (updateClient L E s ident p))) = map c_email (clients s)
        \<and> map c_age (clients (snd (updateClient L E s ident p))) = map c_age (clients s))"
proof (intro conjI impI)
  assume h: "createClient L E s b = (r, s') \<and> status r = 201
      \<and> isValid (toString (newId E)) \<and> castObjectId (toString (newId E)) = newId E"
  then obtain saved where
    sv: "Client_save L E s b = Inr (saved, s')"
    and r: "r = (reply 201 True Cliente_creado_exitosamente)\<lparr>data := ClientData (toJSON saved)\<rparr>"
    using createClient_201 [of L E s b r s'] by auto
  have found: "Client_findById s' (newId E) = Some saved"
    using sv by (rule created_is_found)
  from Client_save_Inr [OF sv] have mem: "saved \<in> set (clients s')" and id: "c_id saved = newId E"
    by auto
  have g: "getClientById s' (toString (newId E)) =
             \<lparr>status = 200, success = True, message = None,
              data = ClientData (deleteKey ''password'' (toObject saved)), errors = [],
              pages = None, error = None\<rparr>"
    using h found
    by (simp add: getClientById_def selectMinusPassword_fields toJSON_def)
  have d: "data r = ClientData (deleteKey ''password'' (toObject saved))"
    by (simp add: r toJSON_def)
  show "\<exists>saved. saved \<in> set (clients s') \<and> c_id saved = newId E
         \<and> getClientById s' (toString (newId E)) =
             \<lparr>status = 200, success = True, message = None,
              data = ClientData (deleteKey ''password'' (toObject saved)), errors = [],
              pages = None, error = None\<rparr>
         \<and> data r = ClientData (deleteKey ''password'' (toObject saved))"
    using mem id g d by blast
next
  show "noPasswordKey (getClientById s ident)" by (rule noPasswordKey_getClientById)
  show "noPasswordKey (getAllClients L s q)" by (rule noPasswordKey_getAllClients)
  show "noPasswordKey (fst (createClient L E s b))" by (rule noPasswordKey_createClient)
  show "noPasswordKey (fst (updateClient L E s ident p))" by (rule noPasswordKey_updateClient)
next
  assume h: "b_name p = None \<and> b_email p = None \<and> b_password p = None \<and> b_age p = None"
  then have a: "b_name p = None" and b: "b_email p = None" and c: "b_age p = None" by simp_all
  note fr = phone_patch_frame [OF a b c, of L E s ident]
  from fr show "map c_name (clients (snd (updateClient L E s ident p))) = map c_name (clients s)"
    by simp
  from fr show "map c_email (clients (snd (updateClient L E s ident p))) = map c_email (clients s)"
    by simp
  from fr show "map c_age (clients (snd (updateClient L E s ident p))) = map c_age (clients s)"
    by simp
qed

lemma create_ana:
  "createClient exLib exEnv emptyStore anaBody =
     ((reply 201 True Cliente_creado_exitosamente)\<lparr>data := ClientData (toJSON ana)\<rparr>, anaStore)"
proof -
  have "Client_save exLib exEnv emptyStore anaBody = Inr (ana, anaStore)"
    by (simp add: Client_save_def anaBody_def castEmail_ana trim_ana_name trim_ana_phone
        validPhone_ana validName_def validEmail_def validPassword_def validAge_def Let_def
        preSave_client_def)
      (simp add: exLib_def exEnv_def emptyStore_def anaStore_def ana_def)
  moreover have "Client_findOne emptyStore (b_email anaBody) = None"
    by (simp add: Client_findOne_def emptyStore_def anaBody_def)
  ultimately show ?thesis
    by (simp add: createClient_def createClient_on_def)
qed

lemma canonical_newId:
  "isValid (toString (newId exEnv)) \<and> castObjectId (toString (newId exEnv)) = newId exEnv"
  by (simp add: exEnv_def isValid_def isHexDigit_def castObjectId_def toLowerCase_def
      toLowerChar_def)

lemma update_ana_phone:
  "snd (updateClient exLib exEnv anaStore anaId (phoneOnly ''+573222222'')) =
     \<lparr>clients = [ana\<lparr>c_phone := ''+573222222''\<rparr>], reservations = []\<rparr>"
proof -
  have t: "trim ''+573222222'' = ''+573222222''" by (simp add: trim_def isSpace_def)
  have v: "validPhone ''+573222222''" by (simp add: validPhone_def phoneMatch_def isDigit_def)
  have "Client_findByIdAndUpdate exLib exEnv anaStore anaId (phoneOnly ''+573222222'') =
          Inr (Some (ana\<lparr>c_phone := ''+573222222''\<rparr>),
               \<lparr>clients = [ana\<lparr>c_phone := ''+573222222''\<rparr>], reservations = []\<rparr>)"
    by (simp add: Client_findByIdAndUpdate_def Let_def castPatch_def validPatch_def phoneOnly_def
        emptyPatch_def t v find_ana applyPatch_def)
      (simp add: cast_anaId anaStore_def ana_def exEnv_def)
  then show ?thesis
    by (simp add: updateClient_def updateClient_on_def isValid_anaId truthy_def phoneOnly_def
        emptyPatch_def)
qed

theorem C7_client_roundtrip_and_frame_witness:
  "createClient exLib exEnv emptyStore anaBody =
     ((reply 201 True Cliente_creado_exitosamente)\<lparr>data := ClientData (toJSON ana)\<rparr>, anaStore)
   \<and> status ((reply 201 True Cliente_creado_exitosamente)\<lparr>data := ClientData (toJSON ana)\<rparr>) = 201
   \<and> isValid (toString (newId exEnv)) \<and> castObjectId (toString (newId exEnv)) = newId exEnv
   \<and> getClientById anaStore (toString (newId exEnv)) =
       \<lparr>status = 200, success = True, message = None,
        data = ClientData
                 [(''_id'', JId (ObjectId ''507f1f77bcf86cd799439011'')),
                  (''name'', JStr ''Ana Ruiz''), (''email'', JStr ''ana@x.com''),
                  (''phone'', JStr ''+573000000''), (''age'', JNum 25),
                  (''createdAt'', JDate 1700000000000), (''updatedAt'', JDate 1700000000000)],
        errors = [], pages = None, error = None\<rparr>
   \<and> b_name (phoneOnly ''+573222222'') = None \<and> b_email (phoneOnly ''+573222222'') = None
   \<and> b_password (phoneOnly ''+573222222'') = None \<and> b_age (phoneOnly ''+573222222'') = None
   \<and> map c_name (clients (snd (updateClient exLib exEnv anaStore anaId (phoneOnly ''+573222222''))))
       = [''Ana Ruiz'']
   \<and> map c_email (clients (snd (updateClient exLib exEnv anaStore anaId (phoneOnly ''+573222222''))))
       = [''ana@x.com'']
   \<and> map c_age (clients (snd (updateClient exLib exEnv anaStore anaId (phoneOnly ''+573222222''))))
       = [25]
   \<and> map c_phone (clients (snd (updateClient exLib exEnv anaStore anaId (phoneOnly ''+573222222''))))
       = [''+573222222'']"
proof -
  have st: "status ((reply 201 True Cliente_creado_exitosamente)\<lparr>data := ClientData (toJSON ana)\<rparr>) = 201"
    by (simp add: reply_def)
  have po: "b_name (phoneOnly ''+573222222'') = None \<and> b_email (phoneOnly ''+573222222'') = None
   \<and> b_password (phoneOnly ''+573222222'') = None \<and> b_age (phoneOnly ''+573222222'') = None"
    by (simp add: phoneOnly_def emptyPatch_def)
  note rt = C7_client_roundtrip_and_frame
    [of exLib exEnv emptyStore anaBody
      "(reply 201 True Cliente_creado_exitosamente)\<lparr>data := ClientData (toJSON ana)\<rparr>" anaStore
      anaId "pageOnly 1 10" "phoneOnly ''+573222222''"]
  note fr = C7_client_roundtrip_and_frame
    [of exLib exEnv anaStore anaBody
      "(reply 201 True Cliente_creado_exitosamente)\<lparr>data := ClientData (toJSON ana)\<rparr>" anaStore
      anaId "pageOnly 1 10" "phoneOnly ''+573222222''"]
  from rt create_ana st canonical_newId
  have "\<exists>saved. saved \<in> set (clients anaStore) \<and> c_id saved = newId exEnv
         \<and> getClientById anaStore (toString (newId exEnv)) =
             \<lparr>status = 200, success = True, message = None,
              data = ClientData (deleteKey ''password'' (toObject saved)), errors = [],
              pages = None, error = None\<rparr>"
    by blast
  then have g: "getClientById anaStore (toString (newId exEnv)) =
             \<lparr>status = 200, success = True, message = None,
              data = ClientData (deleteKey ''password'' (toObject ana)), errors = [],
              pages = None, error = None\<rparr>"
    by (simp add: anaStore_def)
  have g': "getClientById anaStore (toString (newId exEnv)) =
       \<lparr>status = 200, success = True, message = None,
        data = ClientData
                 [(''_id'', JId (ObjectId ''507f1f77bcf86cd799439011'')),
                  (''name'', JStr ''Ana Ruiz''), (''email'', JStr ''ana@x.com''),
                  (''phone'', JStr ''+573000000''), (''age'', JNum 25),
                  (''createdAt'', JDate 1700000000000), (''updatedAt'', JDate 1700000000000)],
        errors = [], pages = None, error = None\<rparr>"
    unfolding g by (simp add: deleteKey_def toObject_def ana_def)
  from fr po
  have f: "map c_name (clients (snd (updateClient exLib exEnv anaStore anaId (phoneOnly ''+573222222''))))
             = map c_name (clients anaStore)
       \<and> map c_email (clients (snd (updateClient exLib exEnv anaStore anaId (phoneOnly ''+573222222''))))
             = map c_email (clients anaStore)
       \<and> map c_age (clients (snd (updateClient exLib exEnv anaStore anaId (phoneOnly ''+573222222''))))
             = map c_age (clients anaStore)"
    by blast
  have vals: "map c_name (clients anaStore) = [''Ana Ruiz'']"
    "map c_email (clients anaStore) = [''ana@x.com'']" "map c_age (clients anaStore) = [25]"
    by (simp_all add: anaStore_def ana_def)
  have ph: "map c_phone (clients (snd (updateClient exLib exEnv anaStore anaId (phoneOnly ''+573222222''))))
       = [''+573222222'']"
    by (simp add: update_ana_phone)
  show ?thesis
    using create_ana st canonical_newId g' po f vals ph by simp
qed

section \<open>The stored password\<close>

lemma createClient_stores_hash:
  assumes "createClient L E s b = (r, s')" and "status r = 201"
  shows "\<exists>p. b_password b = Some p
            \<and> map c_password (clients s') =
                map c_password (clients s) @ [bcryptHash L p (salt E)]"
proof -
  from createClient_201 [OF assms] obtain saved where
    "Client_save L E s b = Inr (saved, s')" by auto
  from Client_save_Inr [OF this] show ?thesis by auto
qed

lemma findByIdAndUpdate_stores_plaintext:
  assumes "Client_findByIdAndUpdate L E s ident p = Inr (Some c', s')"
    and "b_password p = Some pw"
  shows "c_password c' = pw \<and> Client_findById s' (castObjectId ident) = Some c'"
proof -
  from Client_findByIdAndUpdate_Some [OF assms(1)] obtain c where
    f: "find (\<lambda>d. c_id d = castObjectId ident) (clients s) = Some c"
    and c': "c' = applyPatch E (castPatch p) c"
    and s': "s' = s\<lparr>clients := updateFirst (\<lambda>d. c_id d = castObjectId ident) c' (clients s)\<rparr>"
    by (auto simp: Client_findById_def)
  have pw: "c_password c' = pw"
    using assms(2) by (simp add: c' applyPatch_def castPatch_def)
  from f have "c_id c = castObjectId ident" by (auto simp: find_Some_iff)
  then have "c_id c' = castObjectId ident" by (simp add: c' applyPatch_def)
  with f have "find (\<lambda>d. c_id d = castObjectId ident)
                 (updateFirst (\<lambda>d. c_id d = castObjectId ident) c' (clients s)) = Some c'"
    by (simp add: find_updateFirst)
  then show ?thesis using pw by (simp add: Client_findById_def s')
qed

lemma update_ana_password:
  "updateClient exLib exEnv anaStore anaId (passwordOnly ''newsecret'') =
     ((reply 200 True Cliente_actualizado_exitosamente)
        \<lparr>data := ClientData (selectMinusPassword (ana\<lparr>c_password := ''newsecret''\<rparr>))\<rparr>,
      \<lparr>clients = [ana\<lparr>c_password := ''newsecret''\<rparr>], reservations = []\<rparr>)"
proof -
  have "Client_findByIdAndUpdate exLib exEnv anaStore anaId (passwordOnly ''newsecret'') =
          Inr (Some (ana\<lparr>c_password := ''newsecret''\<rparr>),
               \<lparr>clients = [ana\<lparr>c_password := ''newsecret''\<rparr>], reservations = []\<rparr>)"
    by (simp add: Client_findByIdAndUpdate_def Let_def castPatch_def validPatch_def
        passwordOnly_def emptyPatch_def validPassword_def find_ana applyPatch_def)
      (simp add: cast_anaId anaStore_def ana_def exEnv_def)
  then show ?thesis
    by (simp add: updateClient_def updateClient_on_def isValid_anaId truthy_def
        passwordOnly_def emptyPatch_def)
qed

text \<open>
  C5. The failing input: the client of the scenario, created with the password 123456,
  is stored with the hash of that password under the salt (first statement); the update
  of that client with the patch \<^verbatim>\<open>{ password: "newsecret" }\<close> answers 200 and leaves the
  text newsecret itself as the stored password, whatever the hash function is:
  \<open>updateClient\<close> writes through \<^verbatim>\<open>findByIdAndUpdate\<close>, on which the \<^verbatim>\<open>pre("save")\<close> hook
  that hashes does not run.
\<close>

theorem C5_update_stores_plaintext_password:
  "map c_password (clients (snd (createClient exLib exEnv emptyStore anaBody))) =
     [bcryptHash exLib ''123456'' (salt exEnv)]
   \<and> status (fst (updateClient exLib exEnv anaStore anaId (passwordOnly ''newsecret''))) = 200
   \<and> map c_password
        (clients (snd (updateClient (exLib\<lparr>bcryptHash := h\<rparr>) exEnv anaStore anaId
                        (passwordOnly ''newsecret'')))) = [''newsecret'']"
proof -
  have a: "map c_password (clients (snd (createClient exLib exEnv emptyStore anaBody))) =
     [bcryptHash exLib ''123456'' (salt exEnv)]"
    by (simp add: create_ana anaStore_def) (simp add: ana_def exLib_def exEnv_def)
  have b: "status (fst (updateClient exLib exEnv anaStore anaId (passwordOnly ''newsecret''))) = 200"
    by (simp add: update_ana_password reply_def)
  have "Client_findByIdAndUpdate (exLib\<lparr>bcryptHash := h\<rparr>) exEnv anaStore anaId
          (passwordOnly ''newsecret'') =
          Inr (Some (ana\<lparr>c_password := ''newsecret''\<rparr>),
               \<lparr>clients = [ana\<lparr>c_password := ''newsecret''\<rparr>], reservations = []\<rparr>)"
    by (simp add: Client_findByIdAndUpdate_def Let_def castPatch_def validPatch_def
        passwordOnly_def emptyPatch_def validPassword_def find_ana applyPatch_def)
      (simp add: cast_anaId anaStore_def ana_def exEnv_def)
  then have c: "map c_password
        (clients (snd (updateClient (exLib\<lparr>bcryptHash := h\<rparr>) exEnv anaStore anaId
                        (passwordOnly ''newsecret'')))) = [''newsecret'']"
    by (simp add: updateClient_def updateClient_on_def isValid_anaId truthy_def
        passwordOnly_def emptyPatch_def)
  show ?thesis using a b c by simp
qed

section \<open>Creating a reservation: the status\<close>

lemma Reservation_save_Inr:
  assumes "Reservation_save L E s b = Inr (doc, s')"
  shows "r_id doc = newId E
       \<and> r_status doc = (case rb_status b of None \<Rightarrow> ''Pendiente'' | Some st \<Rightarrow> st)
       \<and> \<not> list_ex (\<lambda>r. r_id r = newId E) (reservations s)
       \<and> s' = s\<lparr>reservations := reservations s @ [doc]\<rparr>"
  using assms
  by (auto simp: Reservation_save_def Let_def
      split: option.splits if_splits bool.splits)

lemma createReservation_201:
  assumes "createReservation L E s b = (r, s')" and "status r = 201"
  shows "\<exists>doc. Reservation_save L E s (b\<lparr>rb_status := None\<rparr>) = Inr (doc, s')
              \<and> r = (reply 201 True Reserva_creada_exitosamente)
                      \<lparr>data := ReservationData (populate s' doc)\<rparr>"
proof -
  from assms obtain doc where
    sv: "Reservation_save L E s (b\<lparr>rb_status := None\<rparr>) = Inr (doc, s')"
    and r: "r = (case Reservation_findById s' (r_id doc) of
                   None \<Rightarrow> reply 201 True Reserva_creada_exitosamente
                 | Some d \<Rightarrow> (reply 201 True Reserva_creada_exitosamente)
                               \<lparr>data := ReservationData (populate s' d)\<rparr>)"
    by (auto simp: createReservation_def reply_def serverError_def
        split: option.splits sum.splits if_splits)
  from Reservation_save_Inr [OF sv] have
    id: "r_id doc = newId E"
    and fresh: "\<not> list_ex (\<lambda>r. r_id r = newId E) (reservations s)"
    and s': "s' = s\<lparr>reservations := reservations s @ [doc]\<rparr>"
    by simp_all
  from fresh have "find (\<lambda>r. r_id r = newId E) (reservations s) = None"
    by (rule list_ex_find_None)
  then have "find (\<lambda>r. r_id r = newId E) (reservations s @ [doc]) = Some doc"
    using id by (rule find_append_last)
  then have "Reservation_findById s' (r_id doc) = Some doc"
    by (simp add: Reservation_findById_def s' id)
  with sv r show ?thesis by simp
qed

lemma parse_future: "parseDate exLib futureDate = Some 1893456000000"
  by (simp add: exLib_def futureDate_def)

lemma parse_past: "parseDate exLib pastDate = Some 1577836800000"
  by (simp add: exLib_def pastDate_def)

lemma save_oil:
  "Reservation_save exLib exEnv anaStore (oilBody anaId futureDate) =
     Inr (created, \<lparr>clients = [ana], reservations = [created]\<rparr>)"
proof -
  have t: "trim ''Toyota Corolla 2020'' = ''Toyota Corolla 2020''"
    "trim ''Cambio de aceite'' = ''Cambio de aceite''"
    by (simp_all add: trim_def isSpace_def)
  have v: "validService ''Cambio de aceite''" "validStatus ''Pendiente''"
    "validVehicle ''Toyota Corolla 2020''"
    by (simp_all add: validService_def serviceValues_def validStatus_def statusValues_def
        validVehicle_def)
  have n: "now exEnv = 1700000000000" "newId exEnv = ObjectId ''507f1f77bcf86cd799439011''"
    by (simp_all add: exEnv_def)
  show ?thesis
    by (simp add: Reservation_save_def oilBody_def isValid_anaId parse_future t v n Let_def
        validScheduledDate_def preSave_reservation_def find_ana cast_anaId [symmetric])
      (simp add: cast_anaId anaStore_def created_def)
qed

lemma create_oil:
  "createReservation exLib exEnv anaStore ((oilBody anaId futureDate)\<lparr>rb_status := st\<rparr>) =
     ((reply 201 True Reserva_creada_exitosamente)
        \<lparr>data := ReservationData (populate \<lparr>clients = [ana], reservations = [created]\<rparr> created)\<rparr>,
      \<lparr>clients = [ana], reservations = [created]\<rparr>)"
proof -
  define b where "b = (oilBody anaId futureDate)\<lparr>rb_status := st\<rparr>"
  have "b\<lparr>rb_status := None\<rparr> = oilBody anaId futureDate"
    by (simp add: b_def oilBody_def)
  then have sv: "Reservation_save exLib exEnv anaStore (b\<lparr>rb_status := None\<rparr>) =
     Inr (created, \<lparr>clients = [ana], reservations = [created]\<rparr>)"
    by (simp only: save_oil)
  have c: "rb_clientId b = Some anaId" and d: "rb_scheduledDate b = Some futureDate"
    by (simp_all add: b_def oilBody_def)
  have nf: "\<not> notFuture exLib exEnv (Some futureDate)"
    by (simp add: notFuture_def parse_future exEnv_def)
  have f: "Reservation_findById \<lparr>clients = [ana], reservations = [created]\<rparr> (r_id created) = Some created"
    by (simp add: Reservation_findById_def)
  have "createReservation exLib exEnv anaStore b =
     ((reply 201 True Reserva_creada_exitosamente)
        \<lparr>data := ReservationData (populate \<lparr>clients = [ana], reservations = [created]\<rparr> created)\<rparr>,
      \<lparr>clients = [ana], reservations = [created]\<rparr>)"
    unfolding createReservation_def
    by (simp add: c d isValid_anaId find_ana nf sv f)
  then show ?thesis by (simp only: b_def)
qed

text \<open>
  C6 as stated fails: the request of the reference instance with the status Completado
  supplied is answered 201, and the reservation it creates has the status Pendiente.
\<close>

theorem C6_supplied_status_counterexample:
  "rb_status ((oilBody anaId futureDate)\<lparr>rb_status := Some ''Completado''\<rparr>) = Some ''Completado''
   \<and> status (fst (createReservation exLib exEnv anaStore
                     ((oilBody anaId futureDate)\<lparr>rb_status := Some ''Completado''\<rparr>))) = 201
   \<and> map r_status
        (reservations (snd (createReservation exLib exEnv anaStore
                              ((oilBody anaId futureDate)\<lparr>rb_status := Some ''Completado''\<rparr>))))
       = [''Pendiente'']"
  by (simp add: create_oil reply_def created_def)

text \<open>
  C6, amended. Whenever \<open>createReservation\<close> answers 201, it has added exactly one
  reservation, whose status is Pendiente whether or not the request supplied a status,
  and the response carries that reservation.
\<close>

theorem C6_created_status_is_Pendiente:
  "createReservation L E s b = (r, s') \<and> status r = 201 \<longrightarrow>
     (\<exists>doc. s' = s\<lparr>reservations := reservations s @ [doc]\<rparr>
           \<and> r_status doc = ''Pendiente''
           \<and> data r = ReservationData (populate s' doc))"
proof
  assume h: "createReservation L E s b = (r, s') \<and> status r = 201"
  then obtain doc where
    sv: "Reservation_save L E s (b\<lparr>rb_status := None\<rparr>) = Inr (doc, s')"
    and r: "r = (reply 201 True Reserva_creada_exitosamente)
                  \<lparr>data := ReservationData (populate s' doc)\<rparr>"
    using createReservation_201 [of L E s b r s'] by auto
  from Reservation_save_Inr [OF sv]
  have "s' = s\<lparr>reservations := reservations s @ [doc]\<rparr>" and "r_status doc = ''Pendiente''"
    by simp_all
  moreover have "data r = ReservationData (populate s' doc)" by (simp add: r)
  ultimately show "\<exists>doc. s' = s\<lparr>reservations := reservations s @ [doc]\<rparr>
           \<and> r_status doc = ''Pendiente''
           \<and> data r = ReservationData (populate s' doc)"
    by blast
qed

theorem C6_created_status_is_Pendiente_witness:
  "createReservation exLib exEnv anaStore (oilBody anaId futureDate) =
     ((reply 201 True Reserva_creada_exitosamente)
        \<lparr>data := ReservationData (populate \<lparr>clients = [ana], reservations = [created]\<rparr> created)\<rparr>,
      \<lparr>clients = [ana], reservations = [created]\<rparr>)
   \<and> status ((reply 201 True Reserva_creada_exitosamente)
        \<lparr>data := ReservationData (populate \<lparr>clients = [ana], reservations = [created]\<rparr> created)\<rparr>)
       = 201
   \<and> (\<exists>doc. \<lparr>clients = [ana], reservations = [created]\<rparr> =
               anaStore\<lparr>reservations := reservations anaStore @ [doc]\<rparr>
            \<and> r_status doc = ''Pendiente'')
   \<and> r_status created = ''Pendiente''"
proof -
  have c: "createReservation exLib exEnv anaStore (oilBody anaId futureDate) =
     ((reply 201 True Reserva_creada_exitosamente)
        \<lparr>data := ReservationData (populate \<lparr>clients = [ana], reservations = [created]\<rparr> created)\<rparr>,
      \<lparr>clients = [ana], reservations = [created]\<rparr>)"
    using create_oil [of None] by (simp add: oilBody_def)
  have st: "status ((reply 201 True Reserva_creada_exitosamente)
        \<lparr>data := ReservationData (populate \<lparr>clients = [ana], reservations = [created]\<rparr> created)\<rparr>)
       = 201"
    by (simp add: reply_def)
  from C6_created_status_is_Pendiente
    [of exLib exEnv anaStore "oilBody anaId futureDate"
      "(reply 201 True Reserva_creada_exitosamente)
        \<lparr>data := ReservationData (populate \<lparr>clients = [ana], reservations = [created]\<rparr> created)\<rparr>"
      "\<lparr>clients = [ana], reservations = [created]\<rparr>"] c st
  have "\<exists>doc. \<lparr>clients = [ana], reservations = [created]\<rparr> =
               anaStore\<lparr>reservations := reservations anaStore @ [doc]\<rparr>
            \<and> r_status doc = ''Pendiente''"
    by blast
  then show ?thesis using c st by (simp add: created_def)
qed

section \<open>The future-date check\<close>

lemma notFuture_iff:
  "notFuture L E d \<longleftrightarrow> (\<exists>x t. d = Some x \<and> parseDate L x = Some t \<and> t \<le> now E)"
  by (auto simp: notFuture_def split: option.splits)

lemma createReservation_date:
  assumes "rb_clientId b = Some c" and "isValid c" and "Client_findById s (castObjectId c) \<noteq> None"
  shows "createReservation L E s b = (reply 400 False La_fecha_debe_ser_en_el_futuro, s)
         \<longleftrightarrow> notFuture L E (rb_scheduledDate b)"
proof (cases "notFuture L E (rb_scheduledDate b)")
  case True
  with assms show ?thesis by (auto simp: createReservation_def)
next
  case False
  have "fst (createReservation L E s b) \<noteq> reply 400 False La_fecha_debe_ser_en_el_futuro"
    using assms False
    by (auto simp: createReservation_def reply_def serverError_def
        split: sum.splits option.splits)
  with False show ?thesis by (metis fst_conv)
qed

lemma updateReservation_date:
  assumes "isValid ident"
    and "\<not> truthy (rb_clientId p)
         \<or> (isValid (the (rb_clientId p))
              \<and> Client_findById s (castObjectId (the (rb_clientId p))) \<noteq> None)"
    and "truthy (rb_scheduledDate p)"
  shows "updateReservation L E s ident p = (reply 400 False La_fecha_debe_ser_en_el_futuro, s)
         \<longleftrightarrow> notFuture L E (rb_scheduledDate p)"
proof (cases "notFuture L E (rb_scheduledDate p)")
  case True
  with assms show ?thesis by (auto simp: updateReservation_def)
next
  case False
  have "fst (updateReservation L E s ident p) \<noteq> reply 400 False La_fecha_debe_ser_en_el_futuro"
    using assms False
    by (auto simp: updateReservation_def reply_def serverError_def
        split: sum.splits option.splits)
  with False show ?thesis by (metis fst_conv)
qed

lemma updateReservation_no_date:
  assumes "\<not> truthy (rb_scheduledDate p)"
  shows "fst (updateReservation L E s ident p) \<noteq> reply 400 False La_fecha_debe_ser_en_el_futuro"
  using assms
  by (auto simp: updateReservation_def reply_def serverError_def
      split: sum.splits option.splits)

lemma bob_not_in_anaStore: "Client_findById anaStore (castObjectId bobId) = None"
  by (simp add: Client_findById_def anaStore_def bobId_def castObjectId_def toLowerCase_def
      toLowerChar_def ana_def)

lemma isValid_bobId: "isValid bobId"
  by (simp add: bobId_def isValid_def isHexDigit_def)

lemma past_notFuture: "notFuture exLib exEnv (Some pastDate)"
  by (simp add: notFuture_def parse_past exEnv_def)

lemma future_not_notFuture: "\<not> notFuture exLib exEnv (Some futureDate)"
  by (simp add: notFuture_def parse_future exEnv_def)

lemma mem_check: "x \<in> set (check ok e) \<longleftrightarrow> \<not> ok \<and> x = e"
  by (simp add: check_def)

lemma date_error_create:
  "La_fecha_programada_debe_ser_en_el_futuro \<in> set (reservationErrors L E b)
     \<longleftrightarrow> notFuture L E (rb_scheduledDate b)"
  by (simp add: reservationErrors_def mem_check split: option.splits)

lemma date_error_update:
  "La_fecha_programada_debe_ser_en_el_futuro \<in> set (reservationUpdateErrors L E p)
     \<longleftrightarrow> notFuture L E (rb_scheduledDate p)"
  by (simp add: reservationUpdateErrors_def mem_check notFuture_def split: option.splits)

lemma validation_answer:
  "handleValidationErrors errs = Some r \<Longrightarrow>
     failsWithInvalidDate r \<longleftrightarrow> La_fecha_programada_debe_ser_en_el_futuro \<in> set errs"
  by (auto simp: handleValidationErrors_def failsWithInvalidDate_def reply_def split: if_splits)

lemma validation_passes:
  "handleValidationErrors errs = None \<Longrightarrow> errs = []"
  by (simp add: handleValidationErrors_def split: if_splits)

lemma createReservation_no_date_failure:
  assumes "\<not> notFuture L E (rb_scheduledDate b)"
  shows "\<not> failsWithInvalidDate (fst (createReservation L E s b))"
  using assms
  by (auto simp: createReservation_def failsWithInvalidDate_def reply_def serverError_def
      split: sum.splits option.splits)

lemma updateReservation_no_date_failure:
  assumes "\<not> notFuture L E (rb_scheduledDate p)"
  shows "\<not> failsWithInvalidDate (fst (updateReservation L E s ident p))"
  using assms
  by (auto simp: updateReservation_def failsWithInvalidDate_def reply_def serverError_def
      split: sum.splits option.splits)

lemma post_reservation_date:
  "failsWithInvalidDate (fst (post_reservation L E s b)) \<longleftrightarrow> notFuture L E (rb_scheduledDate b)"
proof (cases "handleValidationErrors (reservationErrors L E b)")
  case (Some r)
  then have "fst (post_reservation L E s b) = r"
    by (simp add: post_reservation_def validateReservation_def)
  with validation_answer [OF Some] show ?thesis by (simp add: date_error_create)
next
  case None
  then have "reservationErrors L E b = []" by (rule validation_passes)
  with date_error_create [of L E b] have nf: "\<not> notFuture L E (rb_scheduledDate b)" by simp
  define b' where "b' = b\<lparr>rb_vehicle := Some (trim (textOf (rb_vehicle b))),
                           rb_notes := map_option trim (rb_notes b)\<rparr>"
  have "rb_scheduledDate b' = rb_scheduledDate b" by (simp add: b'_def)
  with nf have "\<not> failsWithInvalidDate (fst (createReservation L E s b'))"
    by (simp add: createReservation_no_date_failure)
  moreover have "post_reservation L E s b = createReservation L E s b'"
    using None by (simp add: post_reservation_def validateReservation_def b'_def)
  ultimately show ?thesis using nf by simp
qed

lemma validateId_id: "isMongoId ident \<Longrightarrow> validateId [(''id'', ident)] = None"
  by (simp add: validateId_def handleValidationErrors_def)

lemma put_reservation_malformed:
  "\<not> isMongoId ident \<Longrightarrow>
     put_reservation L E s ident p =
       ((reply 400 False Errores_de_validacion)\<lparr>errors := [ID_no_valido]\<rparr>, s)"
  by (simp add: put_reservation_def validateId_def handleValidationErrors_def)

lemma put_reservation_date:
  assumes "isMongoId ident"
  shows "failsWithInvalidDate (fst (put_reservation L E s ident p))
           \<longleftrightarrow> notFuture L E (rb_scheduledDate p)"
proof (cases "handleValidationErrors (reservationUpdateErrors L E p)")
  case (Some r)
  then have "fst (put_reservation L E s ident p) = r"
    using assms by (simp add: put_reservation_def validateId_id validateReservationUpdate_def)
  with validation_answer [OF Some] show ?thesis by (simp add: date_error_update)
next
  case None
  then have "reservationUpdateErrors L E p = []" by (rule validation_passes)
  with date_error_update [of L E p] have nf: "\<not> notFuture L E (rb_scheduledDate p)" by simp
  define p' where "p' = p\<lparr>rb_vehicle := map_option trim (rb_vehicle p),
                           rb_notes := map_option trim (rb_notes p)\<rparr>"
  have "rb_scheduledDate p' = rb_scheduledDate p" by (simp add: p'_def)
  with nf have "\<not> failsWithInvalidDate (fst (updateReservation L E s ident p'))"
    by (simp add: updateReservation_no_date_failure)
  moreover have "put_reservation L E s ident p = updateReservation L E s ident p'"
    using None assms
    by (simp add: put_reservation_def validateId_id validateReservationUpdate_def p'_def)
  ultimately show ?thesis using nf by simp
qed

lemma put_reservation_no_date:
  assumes "rb_scheduledDate p = None"
  shows "\<not> failsWithInvalidDate (fst (put_reservation L E s ident p))"
proof (cases "isMongoId ident")
  case True
  then show ?thesis using assms by (simp add: put_reservation_date notFuture_def)
next
  case False
  then show ?thesis
    by (simp add: put_reservation_malformed failsWithInvalidDate_def reply_def)
qed

lemma date_failure_writes_nothing:
  "(failsWithInvalidDate (fst (post_reservation L E s b)) \<longrightarrow> snd (post_reservation L E s b) = s)
   \<and> (failsWithInvalidDate (fst (put_reservation L E s ident p))
        \<longrightarrow> snd (put_reservation L E s ident p) = s)"
proof (intro conjI impI)
  assume "failsWithInvalidDate (fst (post_reservation L E s b))"
  then have "notFuture L E (rb_scheduledDate b)" by (simp add: post_reservation_date)
  then have "reservationErrors L E b \<noteq> []"
    using date_error_create [of L E b] by auto
  then show "snd (post_reservation L E s b) = s"
    by (simp add: post_reservation_def validateReservation_def handleValidationErrors_def)
next
  assume f: "failsWithInvalidDate (fst (put_reservation L E s ident p))"
  show "snd (put_reservation L E s ident p) = s"
  proof (cases "isMongoId ident")
    case False
    then show ?thesis by (simp add: put_reservation_malformed)
  next
    case True
    with f have "notFuture L E (rb_scheduledDate p)" by (simp add: put_reservation_date)
    then have "reservationUpdateErrors L E p \<noteq> []"
      using date_error_update [of L E p] by auto
    then show ?thesis
      using True
      by (simp add: put_reservation_def validateId_id validateReservationUpdate_def
          handleValidationErrors_def)
  qed
qed

lemma createReservation_client_first:
  assumes "\<not> (\<exists>c. rb_clientId b = Some c \<and> isValid c \<and> Client_findById s (castObjectId c) \<noteq> None)"
  shows "\<not> failsWithInvalidDate (fst (createReservation L E s b))"
  using assms
  by (auto simp: createReservation_def failsWithInvalidDate_def reply_def
      split: option.splits)

lemma updateReservation_ids_first:
  assumes "\<not> isValid ident
           \<or> (truthy (rb_clientId p)
                \<and> (\<not> isValid (the (rb_clientId p))
                     \<or> Client_findById s (castObjectId (the (rb_clientId p))) = None))"
  shows "\<not> failsWithInvalidDate (fst (updateReservation L E s ident p))"
  using assms
  by (auto simp: updateReservation_def failsWithInvalidDate_def reply_def)

text \<open>
  C4. A reservation create is answered 400 with the future-date message if and only if
  the supplied date parses and is less than or equal to the clock reading: the
  validator of the route tests it for every request, whatever else the request
  carries. The same holds for a reservation update that reaches the update operation
  (the identifier of the path is well-formed; a malformed one is answered by
  \<open>validateId\<close> before anything else runs), and an update whose patch has no date is never
  answered with the date message. A request answered with the date message leaves the
  store as it was. The handlers make the same test themselves, after their checks of
  the identifiers and of the client: once these have passed, \<open>createReservation\<close> and
  \<open>updateReservation\<close> (for a patch with a non-empty date) answer 400 with the date
  message if and only if the date parses and is less than or equal to the clock
  reading, and \<open>updateReservation\<close> never does for a patch with no date or an empty one;
  when one of these earlier checks fails, the handler alone never answers with the date
  message, whatever the date.
\<close>

theorem C4_future_date_check:
  "(failsWithInvalidDate (fst (post_reservation L E s b))
      \<longleftrightarrow> (\<exists>x t. rb_scheduledDate b = Some x \<and> parseDate L x = Some t \<and> t \<le> now E))
   \<and> (isMongoId ident \<longrightarrow>
        (failsWithInvalidDate (fst (put_reservation L E s ident p))
           \<longleftrightarrow> (\<exists>x t. rb_scheduledDate p = Some x \<and> parseDate L x = Some t \<and> t \<le> now E)))
   \<and> (rb_scheduledDate p = None \<longrightarrow>
        \<not> failsWithInvalidDate (fst (put_reservation L E s ident p)))
   \<and> (\<not> isMongoId ident \<longrightarrow>
        put_reservation L E s ident p =
          ((reply 400 False Errores_de_validacion)\<lparr>errors := [ID_no_valido]\<rparr>, s))
   \<and> (failsWithInvalidDate (fst (post_reservation L E s b)) \<longrightarrow>
        snd (post_reservation L E s b) = s)
   \<and> (failsWithInvalidDate (fst (put_reservation L E s ident p)) \<longrightarrow>
        snd (put_reservation L E s ident p) = s)
   \<and> (rb_clientId b = Some c \<and> isValid c \<and> Client_findById s (castObjectId c) \<noteq> None \<longrightarrow>
      (createReservation L E s b = (reply 400 False La_fecha_debe_ser_en_el_futuro, s)
       \<longleftrightarrow> (\<exists>x t. rb_scheduledDate b = Some x \<and> parseDate L x = Some t \<and> t \<le> now E)))
   \<and> (isValid ident
       \<and> (\<not> truthy (rb_clientId p)
            \<or> (isValid (the (rb_clientId p))
                 \<and> Client_findById s (castObjectId (the (rb_clientId p))) \<noteq> None))
       \<and> truthy (rb_scheduledDate p) \<longrightarrow>
      (updateReservation L E s ident p = (reply 400 False La_fecha_debe_ser_en_el_futuro, s)
       \<longleftrightarrow> (\<exists>x t. rb_scheduledDate p = Some x \<and> parseDate L x = Some t \<and> t \<le> now E)))
   \<and> (\<not> truthy (rb_scheduledDate p) \<longrightarrow>
        fst (updateReservation L E s ident p) \<noteq> reply 400 False La_fecha_debe_ser_en_el_futuro)
   \<and> (\<not> (\<exists>c. rb_clientId b = Some c \<and> isValid c \<and> Client_findById s (castObjectId c) \<noteq> None)
        \<longrightarrow> \<not> failsWithInvalidDate (fst (createReservation L E s b)))
   \<and> (\<not> isValid ident
        \<or> (truthy (rb_clientId p)
             \<and> (\<not> isValid (the (rb_clientId p))
                  \<or> Client_findById s (castObjectId (the (rb_clientId p))) = None))
        \<longrightarrow> \<not> failsWithInvalidDate (fst (updateReservation L E s ident p)))"
proof (intro conjI impI)
  show "failsWithInvalidDate (fst (post_reservation L E s b))
      \<longleftrightarrow> (\<exists>x t. rb_scheduledDate b = Some x \<and> parseDate L x = Some t \<and> t \<le> now E)"
    using post_reservation_date [of L E s b] by (simp only: notFuture_iff)
next
  assume "isMongoId ident"
  then have "failsWithInvalidDate (fst (put_reservation L E s ident p))
           \<longleftrightarrow> notFuture L E (rb_scheduledDate p)"
    by (rule put_reservation_date)
  then show "failsWithInvalidDate (fst (put_reservation L E s ident p))
           \<longleftrightarrow> (\<exists>x t. rb_scheduledDate p = Some x \<and> parseDate L x = Some t \<and> t \<le> now E)"
    by (simp only: notFuture_iff)
next
  assume "rb_scheduledDate p = None"
  then show "\<not> failsWithInvalidDate (fst (put_reservation L E s ident p))"
    by (rule put_reservation_no_date)
next
  assume "\<not> isMongoId ident"
  then show "put_reservation L E s ident p =
          ((reply 400 False Errores_de_validacion)\<lparr>errors := [ID_no_valido]\<rparr>, s)"
    by (rule put_reservation_malformed)
next
  assume "failsWithInvalidDate (fst (post_reservation L E s b))"
  then show "snd (post_reservation L E s b) = s"
    using date_failure_writes_nothing [of L E s b ident p] by simp
next
  assume "failsWithInvalidDate (fst (put_reservation L E s ident p))"
  then show "snd (put_reservation L E s ident p) = s"
    using date_failure_writes_nothing [of L E s b ident p] by simp
next
  assume "rb_clientId b = Some c \<and> isValid c \<and> Client_findById s (castObjectId c) \<noteq> None"
  then have "createReservation L E s b = (reply 400 False La_fecha_debe_ser_en_el_futuro, s)
         \<longleftrightarrow> notFuture L E (rb_scheduledDate b)"
    using createReservation_date [of b c s L E] by simp
  then show "createReservation L E s b = (reply 400 False La_fecha_debe_ser_en_el_futuro, s)
       \<longleftrightarrow> (\<exists>x t. rb_scheduledDate b = Some x \<and> parseDate L x = Some t \<and> t \<le> now E)"
    by (simp only: notFuture_iff)
next
  assume "isValid ident
       \<and> (\<not> truthy (rb_clientId p)
            \<or> (isValid (the (rb_clientId p))
                 \<and> Client_findById s (castObjectId (the (rb_clientId p))) \<noteq> None))
       \<and> truthy (rb_scheduledDate p)"
  then have "updateReservation L E s ident p = (reply 400 False La_fecha_debe_ser_en_el_futuro, s)
         \<longleftrightarrow> notFuture L E (rb_scheduledDate p)"
    using updateReservation_date [of ident p s L E] by blast
  then show "updateReservation L E s ident p = (reply 400 False La_fecha_debe_ser_en_el_futuro, s)
       \<longleftrightarrow> (\<exists>x t. rb_scheduledDate p = Some x \<and> parseDate L x = Some t \<and> t \<le> now E)"
    by (simp only: notFuture_iff)
next
  assume "\<not> truthy (rb_scheduledDate p)"
  then show "fst (updateReservation L E s ident p) \<noteq> reply 400 False La_fecha_debe_ser_en_el_futuro"
    by (rule updateReservation_no_date)
next
  assume "\<not> (\<exists>c. rb_clientId b = Some c \<and> isValid c \<and> Client_findById s (castObjectId c) \<noteq> None)"
  then show "\<not> failsWithInvalidDate (fst (createReservation L E s b))"
    by (rule createReservation_client_first)
next
  assume "\<not> isValid ident
        \<or> (truthy (rb_clientId p)
             \<and> (\<not> isValid (the (rb_clientId p))
                  \<or> Client_findById s (castObjectId (the (rb_clientId p))) = None))"
  then show "\<not> failsWithInvalidDate (fst (updateReservation L E s ident p))"
    by (rule updateReservation_ids_first)
qed

theorem C4_future_date_check_witness:
  "rb_clientId (oilBody bobId pastDate) = Some bobId
   \<and> Client_findById anaStore (castObjectId bobId) = None
   \<and> failsWithInvalidDate (fst (post_reservation exLib exEnv anaStore (oilBody bobId pastDate)))
   \<and> snd (post_reservation exLib exEnv anaStore (oilBody bobId pastDate)) = anaStore
   \<and> \<not> failsWithInvalidDate (fst (createReservation exLib exEnv anaStore (oilBody bobId pastDate)))
   \<and> \<not> failsWithInvalidDate (fst (post_reservation exLib exEnv anaStore (oilBody anaId futureDate)))
   \<and> isMongoId oilId
   \<and> failsWithInvalidDate
        (fst (put_reservation exLib exEnv (bookedStore ''Pendiente'') oilId (dateOnly pastDate)))
   \<and> snd (put_reservation exLib exEnv (bookedStore ''Pendiente'') oilId (dateOnly pastDate)) =
       bookedStore ''Pendiente''
   \<and> \<not> failsWithInvalidDate
        (fst (put_reservation exLib exEnv (bookedStore ''Pendiente'') oilId (dateOnly futureDate)))
   \<and> rb_scheduledDate emptyReservationPatch = None
   \<and> \<not> failsWithInvalidDate
        (fst (put_reservation exLib exEnv (bookedStore ''Pendiente'') oilId emptyReservationPatch))
   \<and> \<not> isMongoId ''not-an-id'' \<and> \<not> isValid ''not-an-id''
   \<and> put_reservation exLib exEnv (bookedStore ''Pendiente'') ''not-an-id'' (dateOnly pastDate) =
       ((reply 400 False Errores_de_validacion)\<lparr>errors := [ID_no_valido]\<rparr>,
        bookedStore ''Pendiente'')
   \<and> \<not> failsWithInvalidDate
        (fst (updateReservation exLib exEnv (bookedStore ''Pendiente'') ''not-an-id''
           (dateOnly pastDate)))
   \<and> rb_clientId (oilBody anaId pastDate) = Some anaId \<and> isValid anaId
   \<and> Client_findById anaStore (castObjectId anaId) \<noteq> None
   \<and> createReservation exLib exEnv anaStore (oilBody anaId pastDate) =
       (reply 400 False La_fecha_debe_ser_en_el_futuro, anaStore)
   \<and> createReservation exLib exEnv anaStore (oilBody anaId futureDate) \<noteq>
       (reply 400 False La_fecha_debe_ser_en_el_futuro, anaStore)
   \<and> isValid oilId \<and> \<not> truthy (rb_clientId (dateOnly pastDate))
   \<and> truthy (rb_scheduledDate (dateOnly pastDate))
   \<and> updateReservation exLib exEnv (bookedStore ''Pendiente'') oilId (dateOnly pastDate) =
       (reply 400 False La_fecha_debe_ser_en_el_futuro, bookedStore ''Pendiente'')
   \<and> updateReservation exLib exEnv (bookedStore ''Pendiente'') oilId (dateOnly futureDate) \<noteq>
       (reply 400 False La_fecha_debe_ser_en_el_futuro, bookedStore ''Pendiente'')
   \<and> \<not> truthy (rb_scheduledDate emptyReservationPatch)
   \<and> fst (updateReservation exLib exEnv (bookedStore ''Pendiente'') oilId emptyReservationPatch) \<noteq>
       reply 400 False La_fecha_debe_ser_en_el_futuro"
proof -
  let ?booked = "bookedStore ''Pendiente''"
  have c0: "rb_clientId (oilBody bobId pastDate) = Some bobId"
    and c1: "rb_clientId (oilBody anaId pastDate) = Some anaId"
    and c2: "rb_clientId (oilBody anaId futureDate) = Some anaId"
    by (simp_all add: oilBody_def)
  have c3: "Client_findById anaStore (castObjectId anaId) \<noteq> None" by (simp add: find_ana)
  have past: "\<exists>x t. Some pastDate = Some x \<and> parseDate exLib x = Some t \<and> t \<le> now exEnv"
    using past_notFuture unfolding notFuture_iff .
  have future: "\<not> (\<exists>x t. Some futureDate = Some x \<and> parseDate exLib x = Some t \<and> t \<le> now exEnv)"
    using future_not_notFuture unfolding notFuture_iff .
  have d0: "rb_scheduledDate (oilBody bobId pastDate) = Some pastDate"
    and d1: "rb_scheduledDate (oilBody anaId pastDate) = Some pastDate"
    and d2: "rb_scheduledDate (oilBody anaId futureDate) = Some futureDate"
    and d3: "rb_scheduledDate (dateOnly pastDate) = Some pastDate"
    and d4: "rb_scheduledDate (dateOnly futureDate) = Some futureDate"
    and d5: "rb_scheduledDate emptyReservationPatch = None"
    by (simp_all add: oilBody_def dateOnly_def emptyReservationPatch_def)
  have v: "isValid oilId" by (simp add: oilId_def isValid_def isHexDigit_def)
  have m: "isMongoId oilId" by (simp add: oilId_def isMongoId_def isHexDigit_def)
  have bad: "\<not> isMongoId ''not-an-id''" "\<not> isValid ''not-an-id''"
    by (simp_all add: isMongoId_def isValid_def)
  have u1: "\<not> truthy (rb_clientId (dateOnly pastDate))"
    and u2: "\<not> truthy (rb_clientId (dateOnly futureDate))"
    and u3: "truthy (rb_scheduledDate (dateOnly pastDate))"
    and u4: "truthy (rb_scheduledDate (dateOnly futureDate))"
    and u5: "\<not> truthy (rb_scheduledDate emptyReservationPatch)"
    by (simp_all add: truthy_def dateOnly_def emptyReservationPatch_def pastDate_def
        futureDate_def)
  have nobob: "\<not> (\<exists>c. rb_clientId (oilBody bobId pastDate) = Some c \<and> isValid c
                     \<and> Client_findById anaStore (castObjectId c) \<noteq> None)"
    by (simp add: c0 bob_not_in_anaStore)
  note A = C4_future_date_check
      [where L = exLib and E = exEnv and s = anaStore and b = "oilBody bobId pastDate"
         and ident = "''not-an-id''" and p = "dateOnly pastDate" and c = bobId]
  note B = C4_future_date_check
      [where L = exLib and E = exEnv and s = anaStore and b = "oilBody anaId futureDate"
         and ident = oilId and p = "dateOnly pastDate" and c = anaId]
  note C = C4_future_date_check
      [where L = exLib and E = exEnv and s = anaStore and b = "oilBody anaId pastDate"
         and ident = oilId and p = "dateOnly pastDate" and c = anaId]
  note D = C4_future_date_check
      [where L = exLib and E = exEnv and s = ?booked and b = "oilBody anaId pastDate"
         and ident = oilId and p = "dateOnly pastDate" and c = anaId]
  note F = C4_future_date_check
      [where L = exLib and E = exEnv and s = ?booked and b = "oilBody anaId pastDate"
         and ident = oilId and p = "dateOnly futureDate" and c = anaId]
  note G = C4_future_date_check
      [where L = exLib and E = exEnv and s = ?booked and b = "oilBody anaId pastDate"
         and ident = oilId and p = emptyReservationPatch and c = anaId]
  note H = C4_future_date_check
      [where L = exLib and E = exEnv and s = ?booked and b = "oilBody anaId pastDate"
         and ident = "''not-an-id''" and p = "dateOnly pastDate" and c = anaId]
  have p1: "failsWithInvalidDate (fst (post_reservation exLib exEnv anaStore (oilBody bobId pastDate)))"
    using A past by (simp only: d0; simp)
  then have p2: "snd (post_reservation exLib exEnv anaStore (oilBody bobId pastDate)) = anaStore"
    using A by blast
  have p3: "\<not> failsWithInvalidDate (fst (createReservation exLib exEnv anaStore (oilBody bobId pastDate)))"
    using A nobob by blast
  have p4: "\<not> failsWithInvalidDate (fst (post_reservation exLib exEnv anaStore (oilBody anaId futureDate)))"
    using B future by (simp only: d2; simp)
  have q1: "failsWithInvalidDate (fst (put_reservation exLib exEnv ?booked oilId (dateOnly pastDate)))"
    using D m past by (simp only: d3; simp)
  then have q2: "snd (put_reservation exLib exEnv ?booked oilId (dateOnly pastDate)) = ?booked"
    using D by blast
  have q3: "\<not> failsWithInvalidDate (fst (put_reservation exLib exEnv ?booked oilId (dateOnly futureDate)))"
    using F m future by (simp only: d4; simp)
  have q4: "\<not> failsWithInvalidDate (fst (put_reservation exLib exEnv ?booked oilId emptyReservationPatch))"
    using G d5 by blast
  have q5: "put_reservation exLib exEnv ?booked ''not-an-id'' (dateOnly pastDate) =
       ((reply 400 False Errores_de_validacion)\<lparr>errors := [ID_no_valido]\<rparr>, ?booked)"
    using H bad(1) by blast
  have q6: "\<not> failsWithInvalidDate
        (fst (updateReservation exLib exEnv ?booked ''not-an-id'' (dateOnly pastDate)))"
    using H bad(2) by blast
  have r1: "createReservation exLib exEnv anaStore (oilBody anaId pastDate) =
       (reply 400 False La_fecha_debe_ser_en_el_futuro, anaStore)"
    using C c1 c3 isValid_anaId past by (simp only: d1; simp)
  have r2: "createReservation exLib exEnv anaStore (oilBody anaId futureDate) \<noteq>
       (reply 400 False La_fecha_debe_ser_en_el_futuro, anaStore)"
    using B c2 c3 isValid_anaId future by (simp only: d2; simp)
  have r3: "updateReservation exLib exEnv ?booked oilId (dateOnly pastDate) =
       (reply 400 False La_fecha_debe_ser_en_el_futuro, ?booked)"
    using D v u1 u3 past by (simp only: d3; simp)
  have r4: "updateReservation exLib exEnv ?booked oilId (dateOnly futureDate) \<noteq>
       (reply 400 False La_fecha_debe_ser_en_el_futuro, ?booked)"
    using F v u2 u4 future by (simp only: d4; simp)
  have r5: "fst (updateReservation exLib exEnv ?booked oilId emptyReservationPatch) \<noteq>
       reply 400 False La_fecha_debe_ser_en_el_futuro"
    using G u5 by blast
  show ?thesis
    using c0 bob_not_in_anaStore p1 p2 p3 p4 m q1 q2 q3 d5 q4 bad q5 q6 c1 isValid_anaId c3
      r1 r2 v u1 u3 r3 r4 u5 r5
    by simp
qed

section \<open>Email uniqueness\<close>

lemma createClient_duplicate:
  assumes "c \<in> set (clients s)" and "c_email c = castEmail e" and "b_email b = Some e"
  shows "createClient L E s b = (reply 400 False El_email_ya_esta_registrado, s)"
proof -
  from assms(1,2) have "find (\<lambda>d. c_email d = castEmail e) (clients s) \<noteq> None"
    by (auto simp: find_None_iff)
  then show ?thesis
    using assms(3)
    by (auto simp: createClient_def createClient_on_def Client_findOne_def duplicateEmail_def)
qed

lemma findByIdAndUpdate_11000:
  assumes "Client_findByIdAndUpdate L E s ident p = Inl err" and "code err = Some 11000"
  shows "\<exists>d e. d \<in> set (clients s) \<and> b_email p = Some e \<and> c_email d = castEmail e
               \<and> c_id d \<noteq> castObjectId ident"
  using assms
  by (auto simp: Client_findByIdAndUpdate_def Let_def applyPatch_def castPatch_def list_ex_iff
      split: option.splits if_splits)

lemma updateClient_duplicate_only_if:
  assumes "fst (updateClient L E s ident p) = reply 400 False El_email_ya_esta_registrado"
  shows "\<exists>d e. d \<in> set (clients s) \<and> b_email p = Some e \<and> c_email d = castEmail e
               \<and> c_id d \<noteq> castObjectId ident"
proof (cases "isValid ident")
  case False
  with assms show ?thesis by (simp add: updateClient_def updateClient_on_def reply_def)
next
  case True
  show ?thesis
  proof (cases "truthy (b_email p) \<and> Client_findOne_ne s (the (b_email p)) ident \<noteq> None")
    case True
    then obtain e d where e: "b_email p = Some e"
      and d: "find (\<lambda>c. c_email c = castEmail e \<and> c_id c \<noteq> castObjectId ident) (clients s) = Some d"
      by (auto simp: truthy_def Client_findOne_ne_def split: option.splits)
    from d have "d \<in> set (clients s) \<and> c_email d = castEmail e \<and> c_id d \<noteq> castObjectId ident"
      by (auto simp: find_Some_iff)
    with e show ?thesis by blast
  next
    case False
    show ?thesis
    proof (cases "Client_findByIdAndUpdate L E s ident p")
      case (Inl err)
      with assms \<open>isValid ident\<close> False have "code err = Some 11000"
        by (auto simp: updateClient_def updateClient_on_def reply_def serverError_def
            split: if_splits)
      with Inl show ?thesis by (rule findByIdAndUpdate_11000)
    next
      case (Inr x)
      with assms \<open>isValid ident\<close> False show ?thesis
        by (auto simp: updateClient_def updateClient_on_def reply_def
            split: option.splits prod.splits)
    qed
  qed
qed

lemma checkEmailUnique_canonical:
  assumes "Client_findOne s (b_email b) = Some c" and "toString (c_id c) = ident"
  shows "checkEmailUnique s ident b = None"
  using assms by (simp add: checkEmailUnique_def)

lemma put_ana_own_email_upper:
  "put_client exLib exEnv anaStore upperAnaId (emailOnly ''ana@x.com'') =
     (reply 400 False El_email_ya_esta_registrado, anaStore)"
proof -
  have v: "validateId [(''id'', upperAnaId)] = None"
    by (simp add: validateId_def isMongoId_def isHexDigit_def handleValidationErrors_def
        upperAnaId_def)
  have t: "trim ''ana@x.com'' = ''ana@x.com''" by (simp add: trim_def isSpace_def)
  have n: "toLowerCase ''ana@x.com'' = ''ana@x.com''"
    by (simp add: toLowerCase_def toLowerChar_def)
  have b: "validateClientUpdate exLib (emailOnly ''ana@x.com'') = Inr (emailOnly ''ana@x.com'')"
    by (simp add: validateClientUpdate_def emailOnly_def emptyPatch_def t Let_def
        handleValidationErrors_def)
      (simp add: exLib_def n)
  have f: "Client_findOne anaStore (b_email (emailOnly ''ana@x.com'')) = Some ana"
    by (simp add: Client_findOne_def emailOnly_def castEmail_ana anaStore_def) (simp add: ana_def)
  have c: "checkEmailUnique anaStore upperAnaId (emailOnly ''ana@x.com'') = Some duplicateEmail"
    unfolding checkEmailUnique_def f
    by (simp add: truthy_def emailOnly_def ana_def upperAnaId_def)
  show ?thesis by (simp add: put_client_def v b c duplicateEmail_def)
qed

lemma update_ana_own_email:
  "isValid ident \<Longrightarrow> castObjectId ident = ObjectId ''507f1f77bcf86cd799439011'' \<Longrightarrow>
   status (fst (updateClient exLib exEnv anaStore ident (emailOnly ''ana@x.com''))) = 200"
proof -
  assume v: "isValid ident" and c: "castObjectId ident = ObjectId ''507f1f77bcf86cd799439011''"
  have ne: "Client_findOne_ne anaStore ''ana@x.com'' ident = None"
    by (simp add: Client_findOne_ne_def c castEmail_ana anaStore_def) (simp add: ana_def)
  have f: "Client_findById anaStore (castObjectId ident) = Some ana"
    using find_ana by (simp add: c cast_anaId)
  have "\<exists>c' s'. Client_findByIdAndUpdate exLib exEnv anaStore ident (emailOnly ''ana@x.com'') =
          Inr (Some c', s')"
    by (simp add: Client_findByIdAndUpdate_def Let_def castPatch_def validPatch_def emailOnly_def
        emptyPatch_def castEmail_ana validEmail_def f applyPatch_def)
      (simp add: exLib_def c anaStore_def ana_def)
  then show ?thesis
    using v ne
    by (auto simp: updateClient_def updateClient_on_def truthy_def emailOnly_def emptyPatch_def
        reply_def)
qed

lemma isValid_upperAnaId: "isValid upperAnaId"
  by (simp add: upperAnaId_def isValid_def isHexDigit_def)

lemma cast_upperAnaId: "castObjectId upperAnaId = ObjectId ''507f1f77bcf86cd799439011''"
  by (simp add: upperAnaId_def castObjectId_def toLowerCase_def toLowerChar_def)

text \<open>
  C1. The failing input: the store holds one client, whose email is ana@x.com and whose
  identifier is 507f1f77bcf86cd799439011. The request
  \<^verbatim>\<open>PUT /clients/507F1F77BCF86CD799439011\<close> with the patch \<^verbatim>\<open>{ email: "ana@x.com" }\<close>
  names that client (the identifier casts to the client's own) and carries the client's
  own email, which no other client holds; the route answers 400 with the duplicate-email
  message. The handler \<open>updateClient\<close> alone answers 200 at this input, and so does the
  route when the identifier is sent in lower case: the middleware \<open>checkEmailUnique\<close>
  compares identifiers as text.
\<close>

theorem C1_own_email_rejected_for_uppercase_id:
  "clients anaStore = [ana] \<and> c_email ana = ''ana@x.com''
   \<and> c_id ana = castObjectId upperAnaId
   \<and> put_client exLib exEnv anaStore upperAnaId (emailOnly ''ana@x.com'') =
       (reply 400 False El_email_ya_esta_registrado, anaStore)
   \<and> status (fst (updateClient exLib exEnv anaStore upperAnaId (emailOnly ''ana@x.com''))) = 200
   \<and> status (fst (put_client exLib exEnv anaStore anaId (emailOnly ''ana@x.com''))) = 200"
proof -
  have a: "clients anaStore = [ana] \<and> c_email ana = ''ana@x.com''
             \<and> c_id ana = castObjectId upperAnaId"
    by (simp add: anaStore_def cast_upperAnaId) (simp add: ana_def)
  have u: "status (fst (updateClient exLib exEnv anaStore upperAnaId (emailOnly ''ana@x.com''))) = 200"
    using isValid_upperAnaId cast_upperAnaId by (rule update_ana_own_email)
  have v: "validateId [(''id'', anaId)] = None"
    by (simp add: validateId_def isMongoId_def isHexDigit_def handleValidationErrors_def
        anaId_def)
  have t: "trim ''ana@x.com'' = ''ana@x.com''" by (simp add: trim_def isSpace_def)
  have n: "toLowerCase ''ana@x.com'' = ''ana@x.com''"
    by (simp add: toLowerCase_def toLowerChar_def)
  have b: "validateClientUpdate exLib (emailOnly ''ana@x.com'') = Inr (emailOnly ''ana@x.com'')"
    by (simp add: validateClientUpdate_def emailOnly_def emptyPatch_def t Let_def
        handleValidationErrors_def)
      (simp add: exLib_def n)
  have f: "Client_findOne anaStore (b_email (emailOnly ''ana@x.com'')) = Some ana"
    by (simp add: Client_findOne_def emailOnly_def castEmail_ana anaStore_def) (simp add: ana_def)
  have "toString (c_id ana) = anaId" by (simp add: ana_def anaId_def)
  with f have c: "checkEmailUnique anaStore anaId (emailOnly ''ana@x.com'') = None"
    by (rule checkEmailUnique_canonical)
  have "status (fst (updateClient exLib exEnv anaStore anaId (emailOnly ''ana@x.com''))) = 200"
    using isValid_anaId cast_anaId by (rule update_ana_own_email)
  then have p: "status (fst (put_client exLib exEnv anaStore anaId (emailOnly ''ana@x.com''))) = 200"
    by (simp add: put_client_def v b c)
  show ?thesis using a put_ana_own_email_upper u p by simp
qed


end
